theory Spec2Isabelle
  imports Main "HOL-Library.AList"
begin

section \<open>Data model\<close>

text \<open>
  The billing and credit core of the resume builder: the credit service
  (\<^verbatim>\<open>services/credit.service.js\<close>), the payment service with its webhook handlers and
  reconciliation flows (\<^verbatim>\<open>services/payment.service.js\<close>), and the Mongoose models they
  write (credit log, transaction, subscription).

  Conventions of the embedding:
  \<^item> a Mongo collection is a list of documents in insertion order; \<^verbatim>\<open>findOne\<close> returns
    the first document that matches;
  \<^item> an \<^verbatim>\<open>async\<close> function is a function from the state before to a result and the
    state after; a thrown exception is \<open>Inl\<close> of an \<open>error\<close>, and the state returned
    with it holds every write made before the throw (nothing is rolled back, as in the
    source, which opens no database transaction);
  \<^item> identifiers (ObjectIds, Stripe ids) are strings; dates are integers (milliseconds);
    money is an integer number of cents (the source stores cents / 100);
  \<^item> the data store itself never fails: the only database errors are the ones the
    schemas declare (validators and the unique index).
\<close>

type_synonym oid = string

datatype error =
    Error string              \<comment> \<open>\<^verbatim>\<open>throw new Error(message)\<close>\<close>
  | ValidationError string    \<comment> \<open>Mongoose validation failure on a path\<close>
  | DuplicateKeyError string  \<comment> \<open>unique index violation on a path\<close>
  | CastError string          \<comment> \<open>Mongoose cast failure on a path\<close>
  | TypeError                 \<comment> \<open>property read on \<^verbatim>\<open>null\<close>\<close>
  | StripeError string        \<comment> \<open>any rejection of a Stripe API call\<close>

text \<open>JavaScript numbers that may be \<^verbatim>\<open>Infinity\<close>.\<close>

datatype jsnum = Finite int | Infinity

text \<open>
  The fields of the user schema (\<^verbatim>\<open>models/user.model.js\<close>) that the core reads and
  writes: \<^verbatim>\<open>email\<close> (unique), \<^verbatim>\<open>role\<close> (\<^verbatim>\<open>'admin'\<close> or \<^verbatim>\<open>'user'\<close>) and the balance
  \<^verbatim>\<open>credits\<close>. The schema declares the balance a \<^verbatim>\<open>Number\<close> with no minimum, so it
  may go below zero; it is an \<open>int\<close> here, every amount the modelled operations add or
  take being an integer (configured costs and allotments, parsed credit amounts).
\<close>

record user =
  email :: string
  role :: string
  credits :: int

text \<open>\<^verbatim>\<open>models/creditLog.model.js\<close>; the free-form metadata blob is never read back and is left out.\<close>

record creditLog =
  cl_userId :: oid
  cl_type :: string
  cl_action :: "string option"
  cl_credits :: int
  cl_balanceAfter :: "int option"
  cl_description :: string

text \<open>
  \<^verbatim>\<open>models/transaction.model.js\<close>. Of the metadata blob only the two keys that
  \<^verbatim>\<open>syncTransactionsFromStripe\<close> queries are kept; the description (a formatted text) is
  left out.
\<close>

record transaction =
  tx_userId :: oid
  tx_stripeSessionId :: "string option"
  tx_stripePaymentIntentId :: "string option"
  tx_stripeSubscriptionId :: "string option"
  tx_stripeInvoiceId :: "string option"
  tx_type :: string
  tx_status :: string
  tx_amount :: int
  tx_currency :: string
  tx_creditsAdded :: int
  tx_plan :: "string option"
  tx_stripeEventType :: string
  tx_metaChargeId :: "string option"
  tx_metaPaymentIntentId :: "string option"

record features =
  publicResumes :: bool
  resumeAnalytics :: bool
  salaryEstimation :: bool

text \<open>\<^verbatim>\<open>models/subscription.model.js\<close>.\<close>

record subscription =
  sub_userId :: oid
  stripeCustomerId :: "string option"
  stripeSubscriptionId :: "string option"
  sub_plan :: string
  sub_status :: string
  currentPeriodStart :: "int option"
  currentPeriodEnd :: "int option"
  cancelAtPeriodEnd :: bool
  sub_features :: features

text \<open>The fields of a resume that \<^verbatim>\<open>handleSubscriptionDeleted\<close> filters on and sets.\<close>

record resume =
  res_userId :: oid
  visibility :: string
  isDeleted :: bool

text \<open>
  The database. The users are kept with their \<^verbatim>\<open>_id\<close>. Settings (\<^verbatim>\<open>AppSettings\<close>, a
  key/value collection of mixed values) are typed by their use: costs and allotments are
  numbers, Stripe price ids are strings.
\<close>

record state =
  users :: "(oid \<times> user) list"
  numSettings :: "(string \<times> int) list"
  strSettings :: "(string \<times> string) list"
  creditLogs :: "creditLog list"
  transactions :: "transaction list"
  subscriptions :: "subscription list"
  resumes :: "resume list"

section \<open>Settings and schema validation\<close>

text \<open>
  The users collection holds each document under its \<^verbatim>\<open>_id\<close>; \<^verbatim>\<open>User.findById\<close> is the
  lookup.
\<close>

definition User_findById :: "state \<Rightarrow> oid \<Rightarrow> user option" where
  "User_findById s userId = map_of (users s) userId"

text \<open>\<^verbatim>\<open>AppSettings.get(key, defaultValue)\<close>: the stored value, or the default when no setting has the key.\<close>

definition AppSettings_get :: "state \<Rightarrow> string \<Rightarrow> int \<Rightarrow> int" where
  "AppSettings_get s key defaultValue =
     (case map_of (numSettings s) key of Some v \<Rightarrow> v | None \<Rightarrow> defaultValue)"

definition AppSettings_get_str :: "state \<Rightarrow> string \<Rightarrow> string option" where
  "AppSettings_get_str s key = map_of (strSettings s) key"

definition creditLog_types :: "string list" where
  "creditLog_types = [''usage'', ''addition'', ''initial'', ''admin_adjustment'', ''purchase'', ''refund'']"

text \<open>
  \<^verbatim>\<open>CreditLog.create\<close>: the schema's validators run before the insert. The type is one of
  the enum, \<^verbatim>\<open>credits\<close> has \<^verbatim>\<open>min: 0\<close>, and \<^verbatim>\<open>description\<close> is required (Mongoose's
  required validator refuses the empty string).
\<close>

definition CreditLog_create :: "creditLog \<Rightarrow> state \<Rightarrow> (error + unit) \<times> state" where
  "CreditLog_create doc s =
     (if cl_type doc \<notin> set creditLog_types then (Inl (ValidationError ''type''), s)
      else if cl_credits doc < 0 then (Inl (ValidationError ''credits''), s)
      else if cl_description doc = [] then (Inl (ValidationError ''description''), s)
      else (Inr (), s\<lparr>creditLogs := creditLogs s @ [doc]\<rparr>))"

text \<open>
  \<^verbatim>\<open>User.findByIdAndUpdate(id, { $inc: { credits: n } }, { new: true })\<close>: one atomic
  update; the updated document, or \<^verbatim>\<open>null\<close> when no user has the id.
\<close>

definition User_inc_credits :: "oid \<Rightarrow> int \<Rightarrow> state \<Rightarrow> user option \<times> state" where
  "User_inc_credits userId n s =
     (case User_findById s userId of
        None \<Rightarrow> (None, s)
      | Some u \<Rightarrow>
          (let u' = u\<lparr>credits := credits u + n\<rparr>
           in (Some u', s\<lparr>users := AList.update userId u' (users s)\<rparr>)))"

section \<open>Credit service\<close>

text \<open>
  \<^verbatim>\<open>costMap[action]\<close> and \<^verbatim>\<open>actionLabels[action]\<close> are property reads on object
  literals. Such a read also finds the properties every object inherits from
  \<^verbatim>\<open>Object.prototype\<close>; their values are functions (an object for \<^verbatim>\<open>__proto__\<close>), all
  truthy.
\<close>

definition objectPrototype_names :: "string list" where
  "objectPrototype_names =
     [''constructor'', ''toString'', ''toLocaleString'', ''valueOf'', ''hasOwnProperty'',
      ''isPrototypeOf'', ''propertyIsEnumerable'', ''__proto__'', ''__defineGetter__'',
      ''__defineSetter__'', ''__lookupGetter__'', ''__lookupSetter__'']"

datatype 'a property = Own 'a | Inherited

definition js_lookup :: "(string \<times> 'a) list \<Rightarrow> string \<Rightarrow> 'a property option" where
  "js_lookup obj k =
     (case map_of obj k of
        Some v \<Rightarrow> Some (Own v)
      | None \<Rightarrow> if k \<in> set objectPrototype_names then Some Inherited else None)"

definition actionLabels :: "(string \<times> string) list" where
  "actionLabels =
     [(''resume_creation'', ''Resume Generation''),
      (''job_post_cover_letter'', ''Job Post Cover Letter''),
      (''upwork_estimate'', ''Upwork Estimate''),
      (''upwork_proposal'', ''Upwork Proposal''),
      (''fiverr_estimate'', ''Fiverr Estimate''),
      (''fiverr_proposal'', ''Fiverr Proposal'')]"

definition costMap :: "(string \<times> string) list" where
  "costMap =
     [(''resume_creation'', ''credits_per_resume''),
      (''job_post_cover_letter'', ''credits_per_job_post_cover_letter''),
      (''upwork_estimate'', ''credits_per_upwork_estimate''),
      (''upwork_proposal'', ''credits_per_upwork_proposal''),
      (''fiverr_estimate'', ''credits_per_fiverr_estimate''),
      (''fiverr_proposal'', ''credits_per_fiverr_proposal'')]"

text \<open>
  When the value read is an inherited one, it reaches the data layer where a string is
  expected (a setting key, a description). What Mongoose's cast to String makes of it is
  outside the sources and is a parameter: \<open>castString name\<close> is the string the value
  inherited under \<open>name\<close> is cast to, or \<open>None\<close> when the cast is refused.
\<close>

type_synonym caster = "string \<Rightarrow> string option"

record creditCheck =
  hasCredits :: bool
  required :: int
  available :: jsnum
  unlimited :: bool

definition checkCredits :: "caster \<Rightarrow> state \<Rightarrow> oid \<Rightarrow> string \<Rightarrow> error + creditCheck" where
  "checkCredits castString s userId action =
     (case User_findById s userId of
        None \<Rightarrow> Inl (Error ''User not found'')
      | Some user \<Rightarrow>
          if role user = ''admin''
          then Inr \<lparr>hasCredits = True, required = 0, available = Infinity, unlimited = True\<rparr>
          else
            (case js_lookup costMap action of
               None \<Rightarrow> Inl (Error (''Unknown credit action: '' @ action))
             | Some (Own settingKey) \<Rightarrow>
                 (let required = AppSettings_get s settingKey 1
                  in Inr \<lparr>hasCredits = (credits user \<ge> required), required = required,
                          available = Finite (credits user), unlimited = False\<rparr>)
             | Some Inherited \<Rightarrow>
                 (case castString action of
                    None \<Rightarrow> Inl (CastError ''key'')
                  | Some settingKey \<Rightarrow>
                      (let required = AppSettings_get s settingKey 1
                       in Inr \<lparr>hasCredits = (credits user \<ge> required), required = required,
                               available = Finite (credits user), unlimited = False\<rparr>))))"

text \<open>
  The result of \<^verbatim>\<open>deductCredits\<close>. The failure descriptor's \<^verbatim>\<open>error\<close> message
  interpolates the required and the available amount; the model keeps the two values.
\<close>

record deductResult =
  success :: bool
  creditsDeducted :: int
  remaining :: jsnum
  dr_required :: "int option"
  dr_unlimited :: bool
  dr_error :: "(int \<times> jsnum) option"

text \<open>\<^verbatim>\<open>const label = actionLabels[action] || action\<close>, as the description it is stored as.\<close>

definition label_of :: "caster \<Rightarrow> string \<Rightarrow> string option" where
  "label_of castString action =
     (case js_lookup actionLabels action of
        Some (Own l) \<Rightarrow> Some l
      | Some Inherited \<Rightarrow> castString action
      | None \<Rightarrow> Some action)"

text \<open>
  \<^verbatim>\<open>deductCredits\<close> after its first \<^verbatim>\<open>await\<close>: everything that follows the credit
  check, given the check's result.
\<close>

definition deductCredits_commit ::
  "caster \<Rightarrow> creditCheck \<Rightarrow> oid \<Rightarrow> string \<Rightarrow> state \<Rightarrow> (error + deductResult) \<times> state" where
  "deductCredits_commit castString creditCheck userId action s =
     (if unlimited creditCheck then
        (case label_of castString action of
           None \<Rightarrow> (Inl (ValidationError ''description''), s)
         | Some label \<Rightarrow>
             (case CreditLog_create
                     \<lparr>cl_userId = userId, cl_type = ''usage'', cl_action = Some action,
                      cl_credits = 0, cl_balanceAfter = None, cl_description = label\<rparr> s of
                (Inl e, s') \<Rightarrow> (Inl e, s')
              | (Inr _, s') \<Rightarrow>
                  (Inr \<lparr>success = True, creditsDeducted = 0, remaining = Infinity,
                        dr_required = None, dr_unlimited = True, dr_error = None\<rparr>, s')))
      else if \<not> hasCredits creditCheck then
        (Inr \<lparr>success = False, creditsDeducted = 0, remaining = available creditCheck,
              dr_required = Some (required creditCheck), dr_unlimited = False,
              dr_error = Some (required creditCheck, available creditCheck)\<rparr>, s)
      else
        (let required = required creditCheck in
         case User_inc_credits userId (- required) s of
           (None, s1) \<Rightarrow> (Inl TypeError, s1)
         | (Some updatedUser, s1) \<Rightarrow>
             (case label_of castString action of
                None \<Rightarrow> (Inl (ValidationError ''description''), s1)
              | Some label \<Rightarrow>
                  (case CreditLog_create
                          \<lparr>cl_userId = userId, cl_type = ''usage'', cl_action = Some action,
                           cl_credits = required, cl_balanceAfter = Some (credits updatedUser),
                           cl_description = label\<rparr> s1 of
                     (Inl e, s2) \<Rightarrow> (Inl e, s2)
                   | (Inr _, s2) \<Rightarrow>
                       (Inr \<lparr>success = True, creditsDeducted = required,
                             remaining = Finite (credits updatedUser), dr_required = None,
                             dr_unlimited = False, dr_error = None\<rparr>, s2)))))"

definition deductCredits ::
  "caster \<Rightarrow> oid \<Rightarrow> string \<Rightarrow> state \<Rightarrow> (error + deductResult) \<times> state" where
  "deductCredits castString userId action s =
     (case checkCredits castString s userId action of
        Inl e \<Rightarrow> (Inl e, s)
      | Inr creditCheck \<Rightarrow> deductCredits_commit castString creditCheck userId action s)"

definition getInitialCredits :: "state \<Rightarrow> int" where
  "getInitialCredits s = AppSettings_get s ''initial_credits'' 10"

text \<open>\<^verbatim>\<open>logCreditEvent\<close>: \<^verbatim>\<open>CreditLog.create\<close> with the action and the snapshot defaulted to \<^verbatim>\<open>null\<close>.\<close>

definition logCreditEvent :: "creditLog \<Rightarrow> state \<Rightarrow> (error + unit) \<times> state" where
  "logCreditEvent doc s =
     CreditLog_create
       (doc\<lparr>cl_action := (case cl_action doc of Some a \<Rightarrow> (if a = [] then None else Some a) | None \<Rightarrow> None)\<rparr>) s"

section \<open>Payment service: Stripe objects and the Stripe API\<close>

text \<open>
  The fields of the Stripe objects that the payment service reads. Optional chaining in
  the source (\<^verbatim>\<open>items?.data?.[0]?.price?.recurring?.interval\<close>) makes every step of
  a path optional; the model keeps the item list (empty when any part is absent) and the
  optional leaf.
\<close>

record stripeItem =
  item_id :: string
  item_current_period_start :: "int option"
  item_current_period_end :: "int option"
  item_interval :: "string option"

record stripeSub =
  ss_id :: string
  ss_status :: string
  ss_cancel_at_period_end :: bool
  ss_items :: "stripeItem list"
  ss_current_period_start :: "int option"
  ss_current_period_end :: "int option"

text \<open>
  A checkout session. Its metadata is written by the service's own checkout creation:
  \<^verbatim>\<open>type\<close>, \<^verbatim>\<open>userId\<close>, \<^verbatim>\<open>plan\<close>, and \<^verbatim>\<open>creditAmount\<close> as a decimal string, which
  the handler reads back with \<^verbatim>\<open>parseInt\<close>; the model carries the integer.
\<close>

record session =
  ses_id :: string
  ses_type :: string
  ses_userId :: oid
  ses_creditAmount :: int
  ses_plan :: string
  ses_amount_total :: "int option"
  ses_currency :: "string option"
  ses_payment_intent :: "string option"
  ses_subscription :: string
  ses_customer :: string
  ses_payment_status :: string

record invoice =
  inv_id :: string
  inv_subscription :: "string option"
  inv_billing_reason :: string
  inv_amount_paid :: "int option"
  inv_amount_due :: "int option"
  inv_currency :: "string option"
  inv_payment_intent :: "string option"

record charge =
  ch_id :: string
  ch_status :: string
  ch_payment_intent :: "string option"
  ch_amount :: int
  ch_currency :: "string option"
  ch_invoice :: "string option"
  ch_creditAmount :: "int option"

record paymentIntent =
  pi_id :: string
  pi_status :: string
  pi_amount :: int
  pi_currency :: "string option"
  pi_invoice :: "string option"
  pi_creditAmount :: "int option"

text \<open>The webhook event: \<^verbatim>\<open>event.type\<close> with the object it carries in \<^verbatim>\<open>event.data.object\<close>.\<close>

datatype event =
    CheckoutSessionCompleted session
  | CustomerSubscriptionUpdated stripeSub
  | CustomerSubscriptionDeleted stripeSub
  | InvoicePaymentSucceeded invoice
  | InvoicePaymentFailed invoice
  | OtherEvent string

text \<open>
  The world outside the database, as one request sees it: the clock (\<^verbatim>\<open>new Date()\<close>)
  and the answers of the Stripe API, each either a rejection or a value.
\<close>

record env =
  now :: int
  subscriptions_retrieve :: "string option \<Rightarrow> error + stripeSub"
  subscriptions_list :: "string \<Rightarrow> string \<Rightarrow> nat \<Rightarrow> error + stripeSub list"
  subscriptions_update_cancel :: "string option \<Rightarrow> bool \<Rightarrow> error + unit"
  subscriptions_update_price :: "string option \<Rightarrow> string \<Rightarrow> string \<Rightarrow> error + stripeSub"
  customers_create :: "oid \<Rightarrow> string \<Rightarrow> error + string"
  customers_list :: "string \<Rightarrow> error + string list"
  sessions_create_payment :: "string \<Rightarrow> oid \<Rightarrow> int \<Rightarrow> error + string \<times> string"
  sessions_create_subscription :: "string \<Rightarrow> oid \<Rightarrow> string \<Rightarrow> string \<Rightarrow> error + string \<times> string"
  sessions_retrieve :: "string \<Rightarrow> error + session option"
  charges_list :: "string \<Rightarrow> error + charge list"
  paymentIntents_list :: "string \<Rightarrow> error + paymentIntent list"
  invoices_retrieve :: "string \<Rightarrow> error + invoice"
  billingPortal_create :: "string \<Rightarrow> error + string"

text \<open>JavaScript truthiness of an optional string, and \<^verbatim>\<open>x || d\<close> on it.\<close>

definition truthy :: "string option \<Rightarrow> bool" where
  "truthy x = (case x of None \<Rightarrow> False | Some v \<Rightarrow> v \<noteq> [])"

definition or_else :: "string option \<Rightarrow> string \<Rightarrow> string" where
  "or_else x d = (case x of None \<Rightarrow> d | Some v \<Rightarrow> if v = [] then d else v)"

definition extractPeriodDates :: "env \<Rightarrow> stripeSub \<Rightarrow> int \<times> int" where
  "extractPeriodDates e stripeSub =
     (let item = (case ss_items stripeSub of [] \<Rightarrow> None | i # _ \<Rightarrow> Some i);
          start = (case item of
                     None \<Rightarrow> ss_current_period_start stripeSub
                   | Some i \<Rightarrow> (case item_current_period_start i of
                                  Some v \<Rightarrow> Some v
                                | None \<Rightarrow> ss_current_period_start stripeSub));
          end' = (case item of
                     None \<Rightarrow> ss_current_period_end stripeSub
                   | Some i \<Rightarrow> (case item_current_period_end i of
                                  Some v \<Rightarrow> Some v
                                | None \<Rightarrow> ss_current_period_end stripeSub))
      in ((case start of Some v \<Rightarrow> if v = 0 then now e else v * 1000 | None \<Rightarrow> now e),
          (case end' of Some v \<Rightarrow> if v = 0 then now e else v * 1000 | None \<Rightarrow> now e)))"

text \<open>\<^verbatim>\<open>stripeSub.items?.data?.[0]?.price?.recurring?.interval\<close>.\<close>

definition interval_of :: "stripeSub \<Rightarrow> string option" where
  "interval_of stripeSub = (case ss_items stripeSub of [] \<Rightarrow> None | i # _ \<Rightarrow> item_interval i)"

definition creditLimitForPlan :: "state \<Rightarrow> string \<Rightarrow> int" where
  "creditLimitForPlan s plan =
     (if plan = ''yearly'' then AppSettings_get s ''subscription_yearly_credits'' 700
      else AppSettings_get s ''subscription_monthly_credits'' 50)"

section \<open>Transaction and subscription collections\<close>

text \<open>
  The enum of the transaction schema's \<^verbatim>\<open>type\<close> path, as declared in
  \<^verbatim>\<open>models/transaction.model.js\<close>.
\<close>

definition transaction_types :: "string list" where
  "transaction_types =
     [''credit_purchase'', ''credit_usage'', ''subscription_payment'', ''subscription_renewal'',
      ''refund'']"

definition transaction_statuses :: "string list" where
  "transaction_statuses = [''pending'', ''completed'', ''failed'', ''refunded'']"

definition plans :: "string list" where
  "plans = [''monthly'', ''yearly'']"

text \<open>\<^verbatim>\<open>Transaction.create\<close>: the enum validators of type, status and plan run before the insert.\<close>

definition Transaction_create :: "transaction \<Rightarrow> state \<Rightarrow> (error + unit) \<times> state" where
  "Transaction_create doc s =
     (if tx_type doc \<notin> set transaction_types then (Inl (ValidationError ''type''), s)
      else if tx_status doc \<notin> set transaction_statuses then (Inl (ValidationError ''status''), s)
      else if (case tx_plan doc of None \<Rightarrow> False | Some p \<Rightarrow> p \<notin> set plans)
        then (Inl (ValidationError ''plan''), s)
      else (Inr (), s\<lparr>transactions := transactions s @ [doc]\<rparr>))"

definition subscription_statuses :: "string list" where
  "subscription_statuses =
     [''active'', ''canceled'', ''past_due'', ''trialing'', ''incomplete'', ''expired'']"

text \<open>Replace the first element that satisfies \<open>P\<close>: the document a \<^verbatim>\<open>findOne\<close> returned, written back.\<close>

fun update_first :: "('a \<Rightarrow> bool) \<Rightarrow> ('a \<Rightarrow> 'a) \<Rightarrow> 'a list \<Rightarrow> 'a list" where
  "update_first P f [] = []"
| "update_first P f (x # xs) = (if P x then f x # xs else x # update_first P f xs)"

text \<open>
  \<^verbatim>\<open>subscription.save()\<close> on the document found by the filter \<open>P\<close>, after the
  assignments \<open>f\<close>: the schema's enum validators (plan, status) run first; a document
  that fails them is not written.
\<close>

definition Subscription_save ::
  "(subscription \<Rightarrow> bool) \<Rightarrow> (subscription \<Rightarrow> subscription) \<Rightarrow> state \<Rightarrow> (error + unit) \<times> state" where
  "Subscription_save P f s =
     (case find P (subscriptions s) of
        None \<Rightarrow> (Inl TypeError, s)
      | Some d \<Rightarrow>
          if sub_plan (f d) \<notin> set plans then (Inl (ValidationError ''plan''), s)
          else if sub_status (f d) \<notin> set subscription_statuses then (Inl (ValidationError ''status''), s)
          else (Inr (), s\<lparr>subscriptions := update_first P f (subscriptions s)\<rparr>))"

text \<open>
  \<^verbatim>\<open>Subscription.findOneAndUpdate({ userId, stripeSubscriptionId }, doc, { upsert: true })\<close>.
  The update names every field of the document, so the matching document becomes \<open>doc\<close>;
  update validators are off. With no match the document is inserted, which the unique
  (sparse) index on \<^verbatim>\<open>stripeSubscriptionId\<close> refuses when another user's record has the id.
\<close>

definition Subscription_upsert ::
  "oid \<Rightarrow> string \<Rightarrow> subscription \<Rightarrow> state \<Rightarrow> (error + subscription) \<times> state" where
  "Subscription_upsert userId sid doc s =
     (let P = (\<lambda>d. sub_userId d = userId \<and> stripeSubscriptionId d = Some sid) in
      case find P (subscriptions s) of
        Some _ \<Rightarrow> (Inr doc, s\<lparr>subscriptions := update_first P (\<lambda>_. doc) (subscriptions s)\<rparr>)
      | None \<Rightarrow>
          (case find (\<lambda>d. stripeSubscriptionId d = Some sid) (subscriptions s) of
             Some _ \<Rightarrow> (Inl (DuplicateKeyError ''stripeSubscriptionId''), s)
           | None \<Rightarrow> (Inr doc, s\<lparr>subscriptions := subscriptions s @ [doc]\<rparr>)))"

definition all_features :: features where
  "all_features = \<lparr>publicResumes = True, resumeAnalytics = True, salaryEstimation = True\<rparr>"

text \<open>
  \<^verbatim>\<open>Subscription.getActiveForUser\<close> and \<^verbatim>\<open>Subscription.isUserSubscribed\<close> at the time
  \<open>t\<close> (\<^verbatim>\<open>new Date()\<close>). The query's filter is \<open>active_filter\<close>: the user, a status
  \<^verbatim>\<open>$in ['active', 'trialing']\<close>, and \<^verbatim>\<open>currentPeriodEnd: { $gt: now }\<close>, which a
  document without a period end does not match.
\<close>

definition active_filter :: "int \<Rightarrow> oid \<Rightarrow> subscription \<Rightarrow> bool" where
  "active_filter t userId d =
     (sub_userId d = userId \<and> sub_status d \<in> set [''active'', ''trialing'']
      \<and> (case currentPeriodEnd d of None \<Rightarrow> False | Some e \<Rightarrow> e > t))"

definition getActiveForUser :: "int \<Rightarrow> state \<Rightarrow> oid \<Rightarrow> subscription option" where
  "getActiveForUser t s userId = find (active_filter t userId) (subscriptions s)"

definition isUserSubscribed :: "int \<Rightarrow> state \<Rightarrow> oid \<Rightarrow> bool" where
  "isUserSubscribed t s userId = (getActiveForUser t s userId \<noteq> None)"

text \<open>The method \<^verbatim>\<open>isActive\<close> of one subscription document.\<close>

definition isActive :: "int \<Rightarrow> subscription \<Rightarrow> bool" where
  "isActive t d =
     (sub_status d \<in> set [''active'', ''trialing'']
      \<and> (case currentPeriodEnd d of None \<Rightarrow> False | Some e \<Rightarrow> e > t))"

section \<open>Payment service: webhook handlers\<close>

text \<open>
  The handlers of \<^verbatim>\<open>services/payment.service.js\<close>, statement by statement. A filter
  that compares a field with a value that may be \<^verbatim>\<open>null\<close> is equality of options: a
  \<^verbatim>\<open>null\<close> in the filter matches the documents without the field.
\<close>

definition handleCheckoutCompleted :: "env \<Rightarrow> session \<Rightarrow> state \<Rightarrow> (error + unit) \<times> state" where
  "handleCheckoutCompleted e session s =
     (let userId = ses_userId session;
          plan = ses_plan session;
          amount = (case ses_amount_total session of Some a \<Rightarrow> a | None \<Rightarrow> 0);
          currency = or_else (ses_currency session) ''usd''
      in
      if ses_type session = ''credit_purchase'' then
        (let credits' = ses_creditAmount session in
         case User_inc_credits userId credits' s of
           (updatedUser, s1) \<Rightarrow>
             (case Transaction_create
                     \<lparr>tx_userId = userId, tx_stripeSessionId = Some (ses_id session),
                      tx_stripePaymentIntentId = ses_payment_intent session,
                      tx_stripeSubscriptionId = None, tx_stripeInvoiceId = None,
                      tx_type = ''credit_purchase'', tx_status = ''completed'',
                      tx_amount = amount, tx_currency = currency, tx_creditsAdded = credits',
                      tx_plan = None, tx_stripeEventType = ''checkout.session.completed'',
                      tx_metaChargeId = None, tx_metaPaymentIntentId = None\<rparr> s1 of
                (Inl err, s2) \<Rightarrow> (Inl err, s2)
              | (Inr _, s2) \<Rightarrow>
                  CreditLog_create
                    \<lparr>cl_userId = userId, cl_type = ''purchase'', cl_action = None,
                     cl_credits = credits', cl_balanceAfter = map_option credits updatedUser,
                     cl_description = ''Purchased credits''\<rparr> s2))
      else if ses_type session = ''subscription'' then
        (let stripeSubscriptionId' = ses_subscription session in
         case subscriptions_retrieve e (Some stripeSubscriptionId') of
           Inl err \<Rightarrow> (Inl err, s)
         | Inr stripeSub \<Rightarrow>
             (case extractPeriodDates e stripeSub of
                (currentPeriodStart', currentPeriodEnd') \<Rightarrow>
                  (case Subscription_upsert userId stripeSubscriptionId'
                          \<lparr>sub_userId = userId, stripeCustomerId = Some (ses_customer session),
                           stripeSubscriptionId = Some stripeSubscriptionId', sub_plan = plan,
                           sub_status = ss_status stripeSub,
                           currentPeriodStart = Some currentPeriodStart',
                           currentPeriodEnd = Some currentPeriodEnd',
                           cancelAtPeriodEnd = ss_cancel_at_period_end stripeSub,
                           sub_features = all_features\<rparr> s of
                     (Inl err, s1) \<Rightarrow> (Inl err, s1)
                   | (Inr _, s1) \<Rightarrow>
                       (let creditsToAdd = creditLimitForPlan s1 plan in
                        case User_inc_credits userId creditsToAdd s1 of
                          (updatedUser, s2) \<Rightarrow>
                            (case CreditLog_create
                                    \<lparr>cl_userId = userId, cl_type = ''addition'', cl_action = None,
                                     cl_credits = creditsToAdd,
                                     cl_balanceAfter = map_option credits updatedUser,
                                     cl_description = ''Subscription activated - credits added''\<rparr> s2 of
                               (Inl err, s3) \<Rightarrow> (Inl err, s3)
                             | (Inr _, s3) \<Rightarrow>
                                 Transaction_create
                                   \<lparr>tx_userId = userId, tx_stripeSessionId = Some (ses_id session),
                                    tx_stripePaymentIntentId = ses_payment_intent session,
                                    tx_stripeSubscriptionId = Some stripeSubscriptionId',
                                    tx_stripeInvoiceId = None,
                                    tx_type = ''subscription_payment'', tx_status = ''completed'',
                                    tx_amount = amount, tx_currency = currency,
                                    tx_creditsAdded = creditsToAdd, tx_plan = Some plan,
                                    tx_stripeEventType = ''checkout.session.completed'',
                                    tx_metaChargeId = None, tx_metaPaymentIntentId = None\<rparr> s3)))))
      else (Inr (), s))"

definition handleSubscriptionUpdated :: "env \<Rightarrow> stripeSub \<Rightarrow> state \<Rightarrow> (error + unit) \<times> state" where
  "handleSubscriptionUpdated e stripeSubscription s =
     (let P = (\<lambda>d. stripeSubscriptionId d = Some (ss_id stripeSubscription)) in
      case find P (subscriptions s) of
        None \<Rightarrow> (Inr (), s)
      | Some _ \<Rightarrow>
          (case extractPeriodDates e stripeSubscription of
             (currentPeriodStart', currentPeriodEnd') \<Rightarrow>
               Subscription_save P
                 (\<lambda>subscription.
                    (let d1 = subscription
                           \<lparr>sub_status := ss_status stripeSubscription,
                            currentPeriodStart := Some currentPeriodStart',
                            currentPeriodEnd := Some currentPeriodEnd',
                            cancelAtPeriodEnd := ss_cancel_at_period_end stripeSubscription\<rparr>;
                         interval = interval_of stripeSubscription
                     in if truthy interval
                        then d1\<lparr>sub_plan := (if interval = Some ''year'' then ''yearly'' else ''monthly'')\<rparr>
                        else d1))
                 s))"

text \<open>
  \<^verbatim>\<open>Resume.updateMany({ userId, visibility: 'public', isDeleted: false },
  { $set: { visibility: 'private' } })\<close>.
\<close>

definition privatize_resumes :: "oid \<Rightarrow> state \<Rightarrow> state" where
  "privatize_resumes userId s =
     s\<lparr>resumes :=
         map (\<lambda>r. if res_userId r = userId \<and> visibility r = ''public'' \<and> \<not> isDeleted r
                  then r\<lparr>visibility := ''private''\<rparr> else r)
             (resumes s)\<rparr>"

definition handleSubscriptionDeleted :: "stripeSub \<Rightarrow> state \<Rightarrow> (error + unit) \<times> state" where
  "handleSubscriptionDeleted stripeSubscription s =
     (let P = (\<lambda>d. stripeSubscriptionId d = Some (ss_id stripeSubscription)) in
      case find P (subscriptions s) of
        None \<Rightarrow> (Inr (), s)
      | Some subscription \<Rightarrow>
          (case Subscription_save P (\<lambda>d. d\<lparr>sub_status := ''expired''\<rparr>) s of
             (Inl err, s1) \<Rightarrow> (Inl err, s1)
           | (Inr _, s1) \<Rightarrow> (Inr (), privatize_resumes (sub_userId subscription) s1)))"

definition handleInvoicePaymentSucceeded :: "invoice \<Rightarrow> state \<Rightarrow> (error + unit) \<times> state" where
  "handleInvoicePaymentSucceeded invoice s =
     (if \<not> truthy (inv_subscription invoice) \<or> inv_billing_reason invoice = ''subscription_create''
      then (Inr (), s)
      else
        (let amount = (case inv_amount_paid invoice of Some a \<Rightarrow> a | None \<Rightarrow> 0) in
         if amount \<le> 0 then (Inr (), s)
         else
           (case find (\<lambda>d. stripeSubscriptionId d = inv_subscription invoice) (subscriptions s) of
              None \<Rightarrow> (Inr (), s)
            | Some subscription \<Rightarrow>
                (case find (\<lambda>t. tx_stripeInvoiceId t = Some (inv_id invoice)) (transactions s) of
                   Some _ \<Rightarrow> (Inr (), s)
                 | None \<Rightarrow>
                     (let currency = or_else (inv_currency invoice) ''usd'';
                          isSwitch = (inv_billing_reason invoice = ''subscription_update'');
                          creditsToAdd = creditLimitForPlan s (sub_plan subscription)
                      in
                      case User_inc_credits (sub_userId subscription) creditsToAdd s of
                        (updatedUser, s1) \<Rightarrow>
                          (case CreditLog_create
                                  \<lparr>cl_userId = sub_userId subscription, cl_type = ''addition'',
                                   cl_action = None, cl_credits = creditsToAdd,
                                   cl_balanceAfter = map_option credits updatedUser,
                                   cl_description =
                                     (if isSwitch then ''Plan switch - credits added''
                                      else ''Subscription renewal - credits added'')\<rparr> s1 of
                             (Inl err, s2) \<Rightarrow> (Inl err, s2)
                           | (Inr _, s2) \<Rightarrow>
                               Transaction_create
                                 \<lparr>tx_userId = sub_userId subscription, tx_stripeSessionId = None,
                                  tx_stripePaymentIntentId = inv_payment_intent invoice,
                                  tx_stripeSubscriptionId = inv_subscription invoice,
                                  tx_stripeInvoiceId = Some (inv_id invoice),
                                  tx_type = (if isSwitch then ''subscription_switch''
                                             else ''subscription_renewal''),
                                  tx_status = ''completed'', tx_amount = amount,
                                  tx_currency = currency, tx_creditsAdded = creditsToAdd,
                                  tx_plan = Some (sub_plan subscription),
                                  tx_stripeEventType = ''invoice.payment_succeeded'',
                                  tx_metaChargeId = None, tx_metaPaymentIntentId = None\<rparr> s2))))))"

definition handlePaymentFailed :: "invoice \<Rightarrow> state \<Rightarrow> (error + unit) \<times> state" where
  "handlePaymentFailed invoice s =
     (let P = (\<lambda>d. stripeSubscriptionId d = inv_subscription invoice) in
      case find P (subscriptions s) of
        None \<Rightarrow> (Inr (), s)
      | Some subscription \<Rightarrow>
          (case Subscription_save P (\<lambda>d. d\<lparr>sub_status := ''past_due''\<rparr>) s of
             (Inl err, s1) \<Rightarrow> (Inl err, s1)
           | (Inr _, s1) \<Rightarrow>
               Transaction_create
                 \<lparr>tx_userId = sub_userId subscription, tx_stripeSessionId = None,
                  tx_stripePaymentIntentId = None,
                  tx_stripeSubscriptionId = inv_subscription invoice,
                  tx_stripeInvoiceId = Some (inv_id invoice),
                  tx_type = ''subscription_renewal'', tx_status = ''failed'',
                  tx_amount = (case inv_amount_due invoice of Some a \<Rightarrow> a | None \<Rightarrow> 0),
                  tx_currency = or_else (inv_currency invoice) ''usd'', tx_creditsAdded = 0,
                  tx_plan = Some (sub_plan subscription),
                  tx_stripeEventType = ''invoice.payment_failed'',
                  tx_metaChargeId = None, tx_metaPaymentIntentId = None\<rparr> s1))"

definition handleWebhookEvent :: "env \<Rightarrow> event \<Rightarrow> state \<Rightarrow> (error + unit) \<times> state" where
  "handleWebhookEvent e event s =
     (case event of
        CheckoutSessionCompleted session \<Rightarrow> handleCheckoutCompleted e session s
      | CustomerSubscriptionUpdated sub \<Rightarrow> handleSubscriptionUpdated e sub s
      | CustomerSubscriptionDeleted sub \<Rightarrow> handleSubscriptionDeleted sub s
      | InvoicePaymentSucceeded invoice \<Rightarrow> handleInvoicePaymentSucceeded invoice s
      | InvoicePaymentFailed invoice \<Rightarrow> handlePaymentFailed invoice s
      | OtherEvent _ \<Rightarrow> (Inr (), s))"

section \<open>Payment service: reconciliation flows\<close>

definition getOrCreateCustomer :: "env \<Rightarrow> oid \<Rightarrow> user \<Rightarrow> state \<Rightarrow> error + string" where
  "getOrCreateCustomer e userId u s =
     (case find (\<lambda>d. sub_userId d = userId \<and> stripeCustomerId d \<noteq> None) (subscriptions s) of
        None \<Rightarrow> customers_create e userId (email u)
      | Some existingSub \<Rightarrow>
          (case stripeCustomerId existingSub of
             None \<Rightarrow> customers_create e userId (email u)
           | Some c \<Rightarrow> if c = [] then customers_create e userId (email u) else Inr c))"

text \<open>
  \<^verbatim>\<open>createCreditCheckoutSession\<close>. The price sent to Stripe (a rounded floating-point
  product) is part of the request only; the request is identified here by the customer,
  the user and the credit amount.
\<close>

definition createCreditCheckoutSession ::
  "env \<Rightarrow> oid \<Rightarrow> int \<Rightarrow> state \<Rightarrow> (error + string \<times> string) \<times> state" where
  "createCreditCheckoutSession e userId creditAmount s =
     (case User_findById s userId of
        None \<Rightarrow> (Inl (Error ''User not found''), s)
      | Some u \<Rightarrow>
          (case getOrCreateCustomer e userId u s of
             Inl err \<Rightarrow> (Inl err, s)
           | Inr customerId \<Rightarrow>
               (case sessions_create_payment e customerId userId creditAmount of
                  Inl err \<Rightarrow> (Inl err, s)
                | Inr r \<Rightarrow> (Inr r, s))))"

definition price_not_configured :: "string \<Rightarrow> string \<Rightarrow> string" where
  "price_not_configured plan priceKey =
     ''Stripe price ID not configured for '' @ plan @ '' plan. Admin must set '' @ [CHR 0x22]
       @ priceKey @ [CHR 0x22] @ '' in settings.''"

definition already_on_stripe :: string where
  "already_on_stripe =
     ''User already has an active subscription on Stripe. It has been synced ''
       @ [CHR 0xE2, CHR 0x80, CHR 0x94] @ '' please refresh the page.''"

definition createSubscriptionCheckoutSession ::
  "env \<Rightarrow> oid \<Rightarrow> string \<Rightarrow> state \<Rightarrow> (error + string \<times> string) \<times> state" where
  "createSubscriptionCheckoutSession e userId plan s =
     (case User_findById s userId of
        None \<Rightarrow> (Inl (Error ''User not found''), s)
      | Some u \<Rightarrow>
          (case getActiveForUser (now e) s userId of
             Some _ \<Rightarrow>
               (Inl (Error ''User already has an active subscription. Cancel it first to switch plans.''), s)
           | None \<Rightarrow>
               (case getOrCreateCustomer e userId u s of
                  Inl err \<Rightarrow> (Inl err, s)
                | Inr customerId \<Rightarrow>
                    (case subscriptions_list e customerId ''active'' 1 of
                       Inl err \<Rightarrow> (Inl err, s)
                     | Inr (stSub # _) \<Rightarrow>
                         (case extractPeriodDates e stSub of
                            (currentPeriodStart', currentPeriodEnd') \<Rightarrow>
                              (case Subscription_upsert userId (ss_id stSub)
                                      \<lparr>sub_userId = userId, stripeCustomerId = Some customerId,
                                       stripeSubscriptionId = Some (ss_id stSub), sub_plan = plan,
                                       sub_status = ss_status stSub,
                                       currentPeriodStart = Some currentPeriodStart',
                                       currentPeriodEnd = Some currentPeriodEnd',
                                       cancelAtPeriodEnd = ss_cancel_at_period_end stSub,
                                       sub_features = all_features\<rparr> s of
                                 (Inl err, s1) \<Rightarrow> (Inl err, s1)
                               | (Inr _, s1) \<Rightarrow> (Inl (Error already_on_stripe), s1)))
                     | Inr [] \<Rightarrow>
                         (let priceKey = (if plan = ''yearly'' then ''stripe_yearly_price_id''
                                          else ''stripe_monthly_price_id'');
                              priceId = AppSettings_get_str s priceKey
                          in
                          if \<not> truthy priceId
                          then (Inl (Error (price_not_configured plan priceKey)), s)
                          else
                            (case sessions_create_subscription e customerId userId plan
                                    (or_else priceId []) of
                               Inl err \<Rightarrow> (Inl err, s)
                             | Inr r \<Rightarrow> (Inr r, s)))))))"

definition cancelSubscription :: "env \<Rightarrow> oid \<Rightarrow> state \<Rightarrow> (error + subscription) \<times> state" where
  "cancelSubscription e userId s =
     (case getActiveForUser (now e) s userId of
        None \<Rightarrow> (Inl (Error ''No active subscription found''), s)
      | Some subscription \<Rightarrow>
          (case subscriptions_update_cancel e (stripeSubscriptionId subscription) True of
             Inl err \<Rightarrow> (Inl err, s)
           | Inr _ \<Rightarrow>
               (case Subscription_save (active_filter (now e) userId)
                       (\<lambda>d. d\<lparr>cancelAtPeriodEnd := True\<rparr>) s of
                  (Inl err, s1) \<Rightarrow> (Inl err, s1)
                | (Inr _, s1) \<Rightarrow> (Inr (subscription\<lparr>cancelAtPeriodEnd := True\<rparr>), s1))))"

definition reactivateSubscription :: "env \<Rightarrow> oid \<Rightarrow> state \<Rightarrow> (error + subscription) \<times> state" where
  "reactivateSubscription e userId s =
     (let P = (\<lambda>d. sub_userId d = userId \<and> sub_status d = ''active'' \<and> cancelAtPeriodEnd d) in
      case find P (subscriptions s) of
        None \<Rightarrow> (Inl (Error ''No subscription pending cancellation found''), s)
      | Some subscription \<Rightarrow>
          (case subscriptions_update_cancel e (stripeSubscriptionId subscription) False of
             Inl err \<Rightarrow> (Inl err, s)
           | Inr _ \<Rightarrow>
               (case Subscription_save P (\<lambda>d. d\<lparr>cancelAtPeriodEnd := False\<rparr>) s of
                  (Inl err, s1) \<Rightarrow> (Inl err, s1)
                | (Inr _, s1) \<Rightarrow> (Inr (subscription\<lparr>cancelAtPeriodEnd := False\<rparr>), s1))))"

definition switchPlan :: "env \<Rightarrow> oid \<Rightarrow> string \<Rightarrow> state \<Rightarrow> (error + subscription) \<times> state" where
  "switchPlan e userId newPlan s =
     (case getActiveForUser (now e) s userId of
        None \<Rightarrow> (Inl (Error ''No active subscription found''), s)
      | Some subscription \<Rightarrow>
          if sub_plan subscription = newPlan
          then (Inl (Error (''Already on the '' @ newPlan @ '' plan'')), s)
          else if cancelAtPeriodEnd subscription
          then (Inl (Error ''Cannot switch plan while subscription is pending cancellation. Reactivate first.''), s)
          else
            (let priceKey = (if newPlan = ''yearly'' then ''stripe_yearly_price_id''
                             else ''stripe_monthly_price_id'');
                 newPriceId = AppSettings_get_str s priceKey
             in
             if \<not> truthy newPriceId
             then (Inl (Error (price_not_configured newPlan priceKey)), s)
             else
               (case subscriptions_retrieve e (stripeSubscriptionId subscription) of
                  Inl err \<Rightarrow> (Inl err, s)
                | Inr stripeSub \<Rightarrow>
                    (case ss_items stripeSub of
                       [] \<Rightarrow> (Inl TypeError, s)
                     | item # _ \<Rightarrow>
                         (case subscriptions_update_price e (stripeSubscriptionId subscription)
                                 (item_id item) (or_else newPriceId []) of
                            Inl err \<Rightarrow> (Inl err, s)
                          | Inr updatedStripeSub \<Rightarrow>
                              (case extractPeriodDates e updatedStripeSub of
                                 (currentPeriodStart', currentPeriodEnd') \<Rightarrow>
                                   (let f = (\<lambda>d. d\<lparr>sub_plan := newPlan,
                                                     currentPeriodStart := Some currentPeriodStart',
                                                     currentPeriodEnd := Some currentPeriodEnd'\<rparr>)
                                    in
                                    case Subscription_save (active_filter (now e) userId) f s of
                                      (Inl err, s1) \<Rightarrow> (Inl err, s1)
                                    | (Inr _, s1) \<Rightarrow> (Inr (f subscription), s1))))))))"

definition createBillingPortalSession :: "env \<Rightarrow> oid \<Rightarrow> state \<Rightarrow> (error + string) \<times> state" where
  "createBillingPortalSession e userId s =
     (case find (\<lambda>d. sub_userId d = userId \<and> stripeCustomerId d \<noteq> None) (subscriptions s) of
        None \<Rightarrow> (Inl (Error ''No billing account found. Please make a purchase first.''), s)
      | Some subscription \<Rightarrow>
          if \<not> truthy (stripeCustomerId subscription)
          then (Inl (Error ''No billing account found. Please make a purchase first.''), s)
          else
            (case billingPortal_create e (or_else (stripeCustomerId subscription) []) of
               Inl err \<Rightarrow> (Inl err, s)
             | Inr url \<Rightarrow> (Inr url, s)))"

text \<open>
  \<^verbatim>\<open>verifyAndProcessSession\<close>: the result is the flag \<^verbatim>\<open>alreadyProcessed\<close> and the
  transaction found for the session.
\<close>

definition verifyAndProcessSession ::
  "env \<Rightarrow> string \<Rightarrow> oid \<Rightarrow> state \<Rightarrow> (error + bool \<times> transaction option) \<times> state" where
  "verifyAndProcessSession e sessionId userId s =
     (case find (\<lambda>t. tx_stripeSessionId t = Some sessionId \<and> tx_status t = ''completed'')
             (transactions s) of
        Some existingTx \<Rightarrow> (Inr (True, Some existingTx), s)
      | None \<Rightarrow>
          (case sessions_retrieve e sessionId of
             Inl err \<Rightarrow> (Inl err, s)
           | Inr None \<Rightarrow> (Inl (Error ''Session not found on Stripe''), s)
           | Inr (Some session) \<Rightarrow>
               if ses_payment_status session \<noteq> ''paid''
               then (Inl (Error (''Payment not completed. Status: '' @ ses_payment_status session)), s)
               else if ses_userId session \<noteq> userId
               then (Inl (Error ''Session does not belong to this user''), s)
               else
                 (case handleCheckoutCompleted e session s of
                    (Inl err, s1) \<Rightarrow> (Inl err, s1)
                  | (Inr _, s1) \<Rightarrow>
                      (Inr (False, find (\<lambda>t. tx_stripeSessionId t = Some sessionId) (transactions s1)),
                       s1))))"

text \<open>
  The Stripe customer of a user, as both sync flows resolve it: from a local record, or
  by the account's email; \<open>Inr None\<close> when Stripe knows no such customer.
\<close>

definition resolveCustomer :: "env \<Rightarrow> oid \<Rightarrow> user \<Rightarrow> state \<Rightarrow> error + string option" where
  "resolveCustomer e userId u s =
     (let byEmail = (case customers_list e (email u) of
                       Inl err \<Rightarrow> Inl err
                     | Inr [] \<Rightarrow> Inr None
                     | Inr (c # _) \<Rightarrow> Inr (Some c))
      in
      case find (\<lambda>d. sub_userId d = userId \<and> stripeCustomerId d \<noteq> None) (subscriptions s) of
        None \<Rightarrow> byEmail
      | Some existingSub \<Rightarrow>
          (case stripeCustomerId existingSub of
             None \<Rightarrow> byEmail
           | Some c \<Rightarrow> if c = [] then byEmail else Inr (Some c)))"

text \<open>\<^verbatim>\<open>syncSubscriptionFromStripe\<close>: the flag \<^verbatim>\<open>synced\<close> and the subscription written.\<close>

definition syncSubscriptionFromStripe ::
  "env \<Rightarrow> oid \<Rightarrow> state \<Rightarrow> (error + bool \<times> subscription option) \<times> state" where
  "syncSubscriptionFromStripe e userId s =
     (case User_findById s userId of
        None \<Rightarrow> (Inl (Error ''User not found''), s)
      | Some u \<Rightarrow>
          (case resolveCustomer e userId u s of
             Inl err \<Rightarrow> (Inl err, s)
           | Inr None \<Rightarrow> (Inr (False, None), s)
           | Inr (Some customerId) \<Rightarrow>
               (case subscriptions_list e customerId ''active'' 5 of
                  Inl err \<Rightarrow> (Inl err, s)
                | Inr subs \<Rightarrow>
                    (case subscriptions_list e customerId ''trialing'' 5 of
                       Inl err \<Rightarrow> (Inl err, s)
                     | Inr trialSubs \<Rightarrow>
                         (case subs @ trialSubs of
                            [] \<Rightarrow> (Inr (False, None), s)
                          | stripeSub # _ \<Rightarrow>
                              (case extractPeriodDates e stripeSub of
                                 (currentPeriodStart', currentPeriodEnd') \<Rightarrow>
                                   (let plan = (if interval_of stripeSub = Some ''year''
                                                then ''yearly'' else ''monthly'')
                                    in
                                    case Subscription_upsert userId (ss_id stripeSub)
                                           \<lparr>sub_userId = userId, stripeCustomerId = Some customerId,
                                            stripeSubscriptionId = Some (ss_id stripeSub),
                                            sub_plan = plan, sub_status = ss_status stripeSub,
                                            currentPeriodStart = Some currentPeriodStart',
                                            currentPeriodEnd = Some currentPeriodEnd',
                                            cancelAtPeriodEnd = ss_cancel_at_period_end stripeSub,
                                            sub_features = all_features\<rparr> s of
                                      (Inl err, s1) \<Rightarrow> (Inl err, s1)
                                    | (Inr subscription, s1) \<Rightarrow>
                                        (Inr (True, Some subscription), s1))))))))"

text \<open>
  \<^verbatim>\<open>syncTransactionsFromStripe\<close>. The two loops, over the customer's charges and payment
  intents, are recursions over the lists; \<open>imported\<close> counts the entries written. A
  rejected invoice or subscription lookup inside a loop is caught by the source and
  only changes the classification.
\<close>

definition charge_type :: "env \<Rightarrow> charge \<Rightarrow> string" where
  "charge_type e c =
     (if truthy (ch_invoice c) then
        (case invoices_retrieve e (or_else (ch_invoice c) []) of
           Inl _ \<Rightarrow> ''subscription_payment''
         | Inr iv \<Rightarrow> if inv_billing_reason iv = ''subscription_cycle''
                       then ''subscription_renewal'' else ''subscription_payment'')
      else ''credit_purchase'')"

fun sync_charges :: "env \<Rightarrow> oid \<Rightarrow> charge list \<Rightarrow> nat \<Rightarrow> state \<Rightarrow> (error + nat) \<times> state" where
  "sync_charges e userId [] imported s = (Inr imported, s)"
| "sync_charges e userId (c # rest) imported s =
     (if ch_status c \<noteq> ''succeeded'' then sync_charges e userId rest imported s
      else
        (case find (\<lambda>t. tx_userId t = userId
                         \<and> (tx_stripePaymentIntentId t = ch_payment_intent c
                            \<or> tx_metaChargeId t = Some (ch_id c)))
                (transactions s) of
           Some _ \<Rightarrow> sync_charges e userId rest imported s
         | None \<Rightarrow>
             (case Transaction_create
                     \<lparr>tx_userId = userId, tx_stripeSessionId = None,
                      tx_stripePaymentIntentId = Some (or_else (ch_payment_intent c) (ch_id c)),
                      tx_stripeSubscriptionId = None, tx_stripeInvoiceId = None,
                      tx_type = charge_type e c, tx_status = ''completed'',
                      tx_amount = ch_amount c, tx_currency = or_else (ch_currency c) ''usd'',
                      tx_creditsAdded = (case ch_creditAmount c of Some n \<Rightarrow> n | None \<Rightarrow> 0),
                      tx_plan = None, tx_stripeEventType = ''charge.synced'',
                      tx_metaChargeId = Some (ch_id c), tx_metaPaymentIntentId = None\<rparr> s of
                (Inl err, s1) \<Rightarrow> (Inl err, s1)
              | (Inr _, s1) \<Rightarrow> sync_charges e userId rest (imported + 1) s1)))"

text \<open>For a payment intent: the type, the plan and the invoice id of the entry.\<close>

definition intent_class :: "env \<Rightarrow> paymentIntent \<Rightarrow> string \<times> string option \<times> string option" where
  "intent_class e p =
     (if truthy (pi_invoice p) then
        (case invoices_retrieve e (or_else (pi_invoice p) []) of
           Inl _ \<Rightarrow> (''subscription_payment'', None, None)
         | Inr iv \<Rightarrow>
             (if inv_billing_reason iv = ''subscription_cycle''
              then ''subscription_renewal'' else ''subscription_payment'',
              (if truthy (inv_subscription iv) then
                 (case subscriptions_retrieve e (inv_subscription iv) of
                    Inl _ \<Rightarrow> None
                  | Inr sub \<Rightarrow> Some (if interval_of sub = Some ''year'' then ''yearly'' else ''monthly''))
               else None),
              Some (inv_id iv)))
      else (''credit_purchase'', None, None))"

fun sync_intents :: "env \<Rightarrow> oid \<Rightarrow> paymentIntent list \<Rightarrow> nat \<Rightarrow> state \<Rightarrow> (error + nat) \<times> state" where
  "sync_intents e userId [] imported s = (Inr imported, s)"
| "sync_intents e userId (p # rest) imported s =
     (if pi_status p \<noteq> ''succeeded'' then sync_intents e userId rest imported s
      else
        (case find (\<lambda>t. tx_userId t = userId
                         \<and> (tx_stripePaymentIntentId t = Some (pi_id p)
                            \<or> tx_metaPaymentIntentId t = Some (pi_id p)))
                (transactions s) of
           Some _ \<Rightarrow> sync_intents e userId rest imported s
         | None \<Rightarrow>
             (case intent_class e p of
                (type', plan, invoiceId) \<Rightarrow>
                  (case Transaction_create
                          \<lparr>tx_userId = userId, tx_stripeSessionId = None,
                           tx_stripePaymentIntentId = Some (pi_id p),
                           tx_stripeSubscriptionId = None, tx_stripeInvoiceId = invoiceId,
                           tx_type = type', tx_status = ''completed'',
                           tx_amount = pi_amount p, tx_currency = or_else (pi_currency p) ''usd'',
                           tx_creditsAdded = (case pi_creditAmount p of Some n \<Rightarrow> n | None \<Rightarrow> 0),
                           tx_plan = plan, tx_stripeEventType = ''payment_intent.synced'',
                           tx_metaChargeId = None, tx_metaPaymentIntentId = Some (pi_id p)\<rparr> s of
                     (Inl err, s1) \<Rightarrow> (Inl err, s1)
                   | (Inr _, s1) \<Rightarrow> sync_intents e userId rest (imported + 1) s1))))"

text \<open>The result is the flag \<^verbatim>\<open>synced\<close> and the count \<^verbatim>\<open>imported\<close>.\<close>

definition syncTransactionsFromStripe ::
  "env \<Rightarrow> oid \<Rightarrow> state \<Rightarrow> (error + bool \<times> nat) \<times> state" where
  "syncTransactionsFromStripe e userId s =
     (case User_findById s userId of
        None \<Rightarrow> (Inl (Error ''User not found''), s)
      | Some u \<Rightarrow>
          (case resolveCustomer e userId u s of
             Inl err \<Rightarrow> (Inl err, s)
           | Inr None \<Rightarrow> (Inr (False, 0), s)
           | Inr (Some customerId) \<Rightarrow>
               (case charges_list e customerId of
                  Inl err \<Rightarrow> (Inl err, s)
                | Inr charges \<Rightarrow>
                    (case paymentIntents_list e customerId of
                       Inl err \<Rightarrow> (Inl err, s)
                     | Inr paymentIntents \<Rightarrow>
                         (case sync_charges e userId charges 0 s of
                            (Inl err, s1) \<Rightarrow> (Inl err, s1)
                          | (Inr imported, s1) \<Rightarrow>
                              (case sync_intents e userId paymentIntents imported s1 of
                                 (Inl err, s2) \<Rightarrow> (Inl err, s2)
                               | (Inr imported', s2) \<Rightarrow> (Inr (True, imported'), s2)))))))"

section \<open>Registration\<close>

text \<open>
  The part of the registration controller that touches the ledger: the user is created
  with the configured initial credits, and an \<^verbatim>\<open>initial\<close> entry is logged when the grant
  is positive. \<open>userId\<close> is the id \<^verbatim>\<open>User.create\<close> gives the new document; an email or
  an id already in use is refused.
\<close>

definition register :: "oid \<Rightarrow> string \<Rightarrow> string \<Rightarrow> state \<Rightarrow> (error + unit) \<times> state" where
  "register userId email' role' s =
     (if find (\<lambda>(i, u). email u = email') (users s) \<noteq> None then (Inl (Error ''Email already registered''), s)
      else if User_findById s userId \<noteq> None then (Inl (DuplicateKeyError ''_id''), s)
      else
        (let initialCredits = getInitialCredits s;
             s1 = s\<lparr>users := users s @ [(userId, \<lparr>email = email', role = role', credits = initialCredits\<rparr>)]\<rparr>
         in
         if initialCredits > 0 then
           logCreditEvent
             \<lparr>cl_userId = userId, cl_type = ''initial'', cl_action = None,
              cl_credits = initialCredits, cl_balanceAfter = Some initialCredits,
              cl_description = ''Welcome bonus - free credits''\<rparr> s1
         else (Inr (), s1)))"

section \<open>Requests\<close>

text \<open>
  Every entry point of the core, as one request: registration, the debit contract, a
  webhook delivery, and the client-triggered operations of the payment service. Each
  request is handled on its own; \<open>perform\<close> gives the error it surfaces, if any, and
  the database it leaves behind.
\<close>

datatype request =
    Register oid string string
  | DeductCredits oid string
  | Webhook event
  | CreateCreditCheckout oid int
  | CreateSubscriptionCheckout oid string
  | CancelSubscription oid
  | ReactivateSubscription oid
  | SwitchPlan oid string
  | BillingPortal oid
  | VerifySession string oid
  | SyncSubscription oid
  | SyncTransactions oid

definition outcome :: "(error + 'a) \<times> state \<Rightarrow> error option \<times> state" where
  "outcome r = (case r of (Inl err, s) \<Rightarrow> (Some err, s) | (Inr _, s) \<Rightarrow> (None, s))"

definition perform :: "caster \<Rightarrow> env \<Rightarrow> request \<Rightarrow> state \<Rightarrow> error option \<times> state" where
  "perform castString e r s =
     (case r of
        Register userId email' role' \<Rightarrow> outcome (register userId email' role' s)
      | DeductCredits userId action \<Rightarrow> outcome (deductCredits castString userId action s)
      | Webhook event \<Rightarrow> outcome (handleWebhookEvent e event s)
      | CreateCreditCheckout userId creditAmount \<Rightarrow>
          outcome (createCreditCheckoutSession e userId creditAmount s)
      | CreateSubscriptionCheckout userId plan \<Rightarrow>
          outcome (createSubscriptionCheckoutSession e userId plan s)
      | CancelSubscription userId \<Rightarrow> outcome (cancelSubscription e userId s)
      | ReactivateSubscription userId \<Rightarrow> outcome (reactivateSubscription e userId s)
      | SwitchPlan userId newPlan \<Rightarrow> outcome (switchPlan e userId newPlan s)
      | BillingPortal userId \<Rightarrow> outcome (createBillingPortalSession e userId s)
      | VerifySession sessionId userId \<Rightarrow> outcome (verifyAndProcessSession e sessionId userId s)
      | SyncSubscription userId \<Rightarrow> outcome (syncSubscriptionFromStripe e userId s)
      | SyncTransactions userId \<Rightarrow> outcome (syncTransactionsFromStripe e userId s))"

text \<open>A sequence of requests, each with the outside world as it is when the request runs.\<close>

fun run :: "caster \<Rightarrow> (env \<times> request) list \<Rightarrow> state \<Rightarrow> state" where
  "run castString [] s = s"
| "run castString ((e, r) # rest) s = run castString rest (snd (perform castString e r s))"

section \<open>Example data\<close>

text \<open>A Stripe that rejects every call, at time 0.\<close>

definition stripe_down :: env where
  "stripe_down =
     \<lparr>now = 0,
      subscriptions_retrieve = (\<lambda>_. Inl (StripeError ''down'')),
      subscriptions_list = (\<lambda>_ _ _. Inl (StripeError ''down'')),
      subscriptions_update_cancel = (\<lambda>_ _. Inl (StripeError ''down'')),
      subscriptions_update_price = (\<lambda>_ _ _. Inl (StripeError ''down'')),
      customers_create = (\<lambda>_ _. Inl (StripeError ''down'')),
      customers_list = (\<lambda>_. Inl (StripeError ''down'')),
      sessions_create_payment = (\<lambda>_ _ _. Inl (StripeError ''down'')),
      sessions_create_subscription = (\<lambda>_ _ _ _. Inl (StripeError ''down'')),
      sessions_retrieve = (\<lambda>_. Inl (StripeError ''down'')),
      charges_list = (\<lambda>_. Inl (StripeError ''down'')),
      paymentIntents_list = (\<lambda>_. Inl (StripeError ''down'')),
      invoices_retrieve = (\<lambda>_. Inl (StripeError ''down'')),
      billingPortal_create = (\<lambda>_. Inl (StripeError ''down''))\<rparr>"

text \<open>A caster that refuses every inherited value.\<close>

definition no_cast :: caster where
  "no_cast = (\<lambda>_. None)"

text \<open>
  A user with balance 2 and an administrator; creating a resume costs 3 credits.
\<close>

definition s_two_credits :: state where
  "s_two_credits =
     \<lparr>users = [(''u1'', \<lparr>email = ''u1@example.org'', role = ''user'', credits = 2\<rparr>),
               (''adm'', \<lparr>email = ''root@example.org'', role = ''admin'', credits = 0\<rparr>)],
      numSettings = [(''credits_per_resume'', 3)], strSettings = [],
      creditLogs = [], transactions = [], subscriptions = [], resumes = []\<rparr>"

text \<open>A subscription whose stored status is still active, with its period ended at time 1000.\<close>

definition sub_stale :: subscription where
  "sub_stale =
     \<lparr>sub_userId = ''u1'', stripeCustomerId = Some ''cus_1'', stripeSubscriptionId = Some ''sub_1'',
      sub_plan = ''monthly'', sub_status = ''active'', currentPeriodStart = Some 0,
      currentPeriodEnd = Some 1000, cancelAtPeriodEnd = False, sub_features = all_features\<rparr>"

definition s_stale :: state where
  "s_stale = s_two_credits\<lparr>subscriptions := [sub_stale]\<rparr>"

text \<open>
  A caster after the engine's printing of functions: the functions inherited from
  \<^verbatim>\<open>Object.prototype\<close> are cast to their source text; the object under \<^verbatim>\<open>__proto__\<close>
  is refused.
\<close>

definition v8_cast :: caster where
  "v8_cast name =
     (if name = ''__proto__'' then None
      else if name = ''constructor'' then Some ''function Object() { [native code] }''
      else Some (''function '' @ name @ ''() { [native code] }''))"

text \<open>The same users, with a yearly subscription \<^verbatim>\<open>sub_1\<close> of user \<^verbatim>\<open>u1\<close>.\<close>

definition sub_yearly :: subscription where
  "sub_yearly =
     \<lparr>sub_userId = ''u1'', stripeCustomerId = Some ''cus_1'', stripeSubscriptionId = Some ''sub_1'',
      sub_plan = ''yearly'', sub_status = ''active'', currentPeriodStart = Some 0,
      currentPeriodEnd = Some 1000, cancelAtPeriodEnd = False, sub_features = all_features\<rparr>"

definition s_yearly :: state where
  "s_yearly = s_two_credits\<lparr>subscriptions := [sub_yearly]\<rparr>"

text \<open>The paid invoice of a plan switch on \<^verbatim>\<open>sub_1\<close>, and the paid invoice of a renewal.\<close>

definition inv_switch :: invoice where
  "inv_switch =
     \<lparr>inv_id = ''in_1'', inv_subscription = Some ''sub_1'', inv_billing_reason = ''subscription_update'',
      inv_amount_paid = Some 1000, inv_amount_due = Some 1000, inv_currency = Some ''usd'',
      inv_payment_intent = Some ''pi_1''\<rparr>"

definition inv_renewal :: invoice where
  "inv_renewal =
     \<lparr>inv_id = ''in_2'', inv_subscription = Some ''sub_1'', inv_billing_reason = ''subscription_cycle'',
      inv_amount_paid = Some 1000, inv_amount_due = Some 1000, inv_currency = Some ''usd'',
      inv_payment_intent = Some ''pi_3''\<rparr>"

text \<open>A paid checkout session \<^verbatim>\<open>sess_1\<close> of user \<^verbatim>\<open>u1\<close> for 10 credits.\<close>

definition sess_1 :: session where
  "sess_1 =
     \<lparr>ses_id = ''sess_1'', ses_type = ''credit_purchase'', ses_userId = ''u1'',
      ses_creditAmount = 10, ses_plan = [], ses_amount_total = Some 799,
      ses_currency = Some ''usd'', ses_payment_intent = Some ''pi_2'', ses_subscription = [],
      ses_customer = ''cus_1'', ses_payment_status = ''paid''\<rparr>"

text \<open>One user with one credit; no cost is configured, so every action costs the default 1.\<close>

definition s_one_credit :: state where
  "s_one_credit =
     \<lparr>users = [(''u1'', \<lparr>email = ''u1@example.org'', role = ''user'', credits = 1\<rparr>)],
      numSettings = [], strSettings = [],
      creditLogs = [], transactions = [], subscriptions = [], resumes = []\<rparr>"

definition cc_one :: creditCheck where
  "cc_one = \<lparr>hasCredits = True, required = 1, available = Finite 1, unlimited = False\<rparr>"

text \<open>
  The subscription \<^verbatim>\<open>sub_1\<close> of user \<^verbatim>\<open>u1\<close> after its deletion event (status expired),
  the Stripe object that reports the same subscription as active, and a Stripe that
  lists that object as the customer's active subscription.
\<close>

definition sub_expired :: subscription where
  "sub_expired = sub_stale\<lparr>sub_status := ''expired''\<rparr>"

definition s_expired :: state where
  "s_expired = s_two_credits\<lparr>subscriptions := [sub_expired]\<rparr>"

definition ss_active :: stripeSub where
  "ss_active =
     \<lparr>ss_id = ''sub_1'', ss_status = ''active'', ss_cancel_at_period_end = False,
      ss_items = [], ss_current_period_start = Some 1, ss_current_period_end = Some 5\<rparr>"

definition stripe_lists_active :: env where
  "stripe_lists_active =
     stripe_down
       \<lparr>subscriptions_list := (\<lambda>customer status limit.
            if status = ''active'' then Inr [ss_active] else Inr []),
        customers_create := (\<lambda>userId email'. Inr ''cus_1'')\<rparr>"

text \<open>
  A paid credit-purchase session of user \<^verbatim>\<open>u1\<close> whose credit amount is -5, and a Stripe
  that returns it for every session id.
\<close>

definition sess_negative :: session where
  "sess_negative = sess_1\<lparr>ses_id := ''sess_2'', ses_creditAmount := - 5\<rparr>"

definition stripe_returns_negative :: env where
  "stripe_returns_negative = stripe_down\<lparr>sessions_retrieve := (\<lambda>sessionId. Inr (Some sess_negative))\<rparr>"

text \<open>
  A database with no documents and no settings, so that every grant and every cost has
  its default; and the same database after \<^verbatim>\<open>u1\<close> registered as an ordinary user, with
  the default welcome grant of 10 credits and its ledger entry.
\<close>

definition s_fresh :: state where
  "s_fresh =
     \<lparr>users = [], numSettings = [], strSettings = [],
      creditLogs = [], transactions = [], subscriptions = [], resumes = []\<rparr>"

definition s_registered :: state where
  "s_registered =
     \<lparr>users = [(''u1'', \<lparr>email = ''u1@example.org'', role = ''user'', credits = 10\<rparr>)],
      numSettings = [], strSettings = [],
      creditLogs = [\<lparr>cl_userId = ''u1'', cl_type = ''initial'', cl_action = None, cl_credits = 10,
                     cl_balanceAfter = Some 10,
                     cl_description = ''Welcome bonus - free credits''\<rparr>],
      transactions = [], subscriptions = [], resumes = []\<rparr>"

text \<open>
  A paid subscription session of \<^verbatim>\<open>u1\<close> for the monthly plan, a Stripe that returns the
  active subscription \<^verbatim>\<open>sub_1\<close> for it, and a sequence of requests after the
  registration of \<^verbatim>\<open>u1\<close>: a debit, a credit purchase, the subscription checkout, and
  the registration and a debit of an administrator.
\<close>

definition sess_subscribe :: session where
  "sess_subscribe =
     sess_1\<lparr>ses_id := ''sess_3'', ses_type := ''subscription'', ses_plan := ''monthly'',
            ses_subscription := ''sub_1''\<rparr>"

definition stripe_sub_active :: env where
  "stripe_sub_active = stripe_down\<lparr>subscriptions_retrieve := (\<lambda>_. Inr ss_active)\<rparr>"

definition ledger_steps :: "(env \<times> request) list" where
  "ledger_steps =
     [(stripe_down, DeductCredits ''u1'' ''resume_creation''),
      (stripe_down, Webhook (CheckoutSessionCompleted sess_1)),
      (stripe_sub_active, Webhook (CheckoutSessionCompleted sess_subscribe)),
      (stripe_down, Register ''adm'' ''root@example.org'' ''admin''),
      (stripe_down, DeductCredits ''adm'' ''resume_creation'')]"

section \<open>Specification predicates\<close>

text \<open>
  The conditions under which \<open>handleInvoicePaymentSucceeded\<close> returns before writing:
  the invoice names no subscription, it is the initial invoice of a subscription, its
  paid amount is not positive, no local record has its subscription reference, or the
  journal already holds an entry for the invoice id.
\<close>

definition invoice_skipped :: "invoice \<Rightarrow> state \<Rightarrow> bool" where
  "invoice_skipped iv s =
     (\<not> truthy (inv_subscription iv)
      \<or> inv_billing_reason iv = ''subscription_create''
      \<or> (case inv_amount_paid iv of None \<Rightarrow> True | Some a \<Rightarrow> a \<le> 0)
      \<or> find (\<lambda>d. stripeSubscriptionId d = inv_subscription iv) (subscriptions s) = None
      \<or> find (\<lambda>t. tx_stripeInvoiceId t = Some (inv_id iv)) (transactions s) \<noteq> None)"

text \<open>What a renewal invoice writes for the subscription record \<open>sub\<close>: the ledger entry, the journal entry, and the database after the grant.\<close>

definition renewal_entry :: "invoice \<Rightarrow> subscription \<Rightarrow> state \<Rightarrow> creditLog" where
  "renewal_entry iv sub s =
     \<lparr>cl_userId = sub_userId sub, cl_type = ''addition'', cl_action = None,
      cl_credits = creditLimitForPlan s (sub_plan sub),
      cl_balanceAfter = map_option (\<lambda>u. credits u + creditLimitForPlan s (sub_plan sub))
                          (User_findById s (sub_userId sub)),
      cl_description = ''Subscription renewal - credits added''\<rparr>"

definition renewal_transaction :: "invoice \<Rightarrow> subscription \<Rightarrow> state \<Rightarrow> transaction" where
  "renewal_transaction iv sub s =
     \<lparr>tx_userId = sub_userId sub, tx_stripeSessionId = None,
      tx_stripePaymentIntentId = inv_payment_intent iv,
      tx_stripeSubscriptionId = inv_subscription iv,
      tx_stripeInvoiceId = Some (inv_id iv),
      tx_type = ''subscription_renewal'', tx_status = ''completed'',
      tx_amount = (case inv_amount_paid iv of Some a \<Rightarrow> a | None \<Rightarrow> 0),
      tx_currency = or_else (inv_currency iv) ''usd'',
      tx_creditsAdded = creditLimitForPlan s (sub_plan sub),
      tx_plan = Some (sub_plan sub),
      tx_stripeEventType = ''invoice.payment_succeeded'',
      tx_metaChargeId = None, tx_metaPaymentIntentId = None\<rparr>"

definition renewal_granted :: "invoice \<Rightarrow> subscription \<Rightarrow> state \<Rightarrow> state" where
  "renewal_granted iv sub s =
     (snd (User_inc_credits (sub_userId sub) (creditLimitForPlan s (sub_plan sub)) s))
       \<lparr>creditLogs := creditLogs s @ [renewal_entry iv sub s],
        transactions := transactions s @ [renewal_transaction iv sub s]\<rparr>"

text \<open>
  The subscription record at position \<open>i\<close> of the collection is expired before a request
  and active or trialing after it. (No operation removes or reorders records, so a
  position names the same record before and after.)
\<close>

definition revived :: "state \<Rightarrow> state \<Rightarrow> nat \<Rightarrow> bool" where
  "revived s s' i =
     (i < length (subscriptions s) \<and> sub_status (subscriptions s ! i) = ''expired''
      \<and> i < length (subscriptions s')
      \<and> (sub_status (subscriptions s' ! i) = ''active'' \<or> sub_status (subscriptions s' ! i) = ''trialing''))"

text \<open>The client-triggered operations of the payment service (the Reconciliation Service of the spec).\<close>

fun is_reconciliation :: "request \<Rightarrow> bool" where
  "is_reconciliation (Register userId email' role') = False"
| "is_reconciliation (DeductCredits userId action) = False"
| "is_reconciliation (Webhook event) = False"
| "is_reconciliation r = True"

text \<open>
  The record that the subscription checkout creation writes when Stripe already lists an
  active subscription \<open>stSub\<close> for the customer: the requested plan, and status, period
  and cancel flag as Stripe reports them.
\<close>

definition conflict_record :: "oid \<Rightarrow> string \<Rightarrow> string \<Rightarrow> stripeSub \<Rightarrow> int \<times> int \<Rightarrow> subscription" where
  "conflict_record userId plan customerId stSub period =
     \<lparr>sub_userId = userId, stripeCustomerId = Some customerId,
      stripeSubscriptionId = Some (ss_id stSub), sub_plan = plan,
      sub_status = ss_status stSub,
      currentPeriodStart = Some (fst period), currentPeriodEnd = Some (snd period),
      cancelAtPeriodEnd = ss_cancel_at_period_end stSub, sub_features = all_features\<rparr>"

text \<open>
  The ledger of a user is the user's entries of the credit log, in the order they were
  written. An entry counts with its sign: a usage entry takes its magnitude away, an
  entry of any other kind adds it. \<open>running_sum\<close> is the signed sum of a list of
  entries. \<open>snapshots_ok acc es\<close> says that every entry of \<open>es\<close> carries, as its
  balance snapshot, the signed sum of the entries up to and including it, on top of
  \<open>acc\<close>.
\<close>

definition delta :: "creditLog \<Rightarrow> int" where
  "delta entry = (if cl_type entry = ''usage'' then - cl_credits entry else cl_credits entry)"

definition running_sum :: "creditLog list \<Rightarrow> int" where
  "running_sum es = sum_list (map delta es)"

definition ledger_of :: "state \<Rightarrow> oid \<Rightarrow> creditLog list" where
  "ledger_of s userId = filter (\<lambda>entry. cl_userId entry = userId) (creditLogs s)"

fun snapshots_ok :: "int \<Rightarrow> creditLog list \<Rightarrow> bool" where
  "snapshots_ok acc [] = True"
| "snapshots_ok acc (entry # es) =
     (cl_balanceAfter entry = Some (acc + delta entry) \<and> snapshots_ok (acc + delta entry) es)"

text \<open>
  The ledger agrees with the balance of a user: the user exists and is no administrator,
  the stored balance is the signed sum of the user's ledger, and every snapshot is the
  running sum.
\<close>

definition ledger_consistent :: "state \<Rightarrow> oid \<Rightarrow> bool" where
  "ledger_consistent s userId =
     (case User_findById s userId of
        None \<Rightarrow> False
      | Some u \<Rightarrow> role u \<noteq> ''admin'' \<and> credits u = running_sum (ledger_of s userId)
                  \<and> snapshots_ok 0 (ledger_of s userId))"

text \<open>
  A request ends with the credit log's schema refusing an entry: the validation error
  names the path \<^verbatim>\<open>credits\<close> (a negative magnitude) or \<^verbatim>\<open>description\<close> (none given).
  Of the validators above only those of the credit log report these two paths.
  \<open>ledger_accepted\<close>: no request of the sequence ends so.
\<close>

definition ledger_refused :: "error option \<Rightarrow> bool" where
  "ledger_refused r =
     (r = Some (ValidationError ''credits'') \<or> r = Some (ValidationError ''description''))"

fun ledger_accepted :: "caster \<Rightarrow> (env \<times> request) list \<Rightarrow> state \<Rightarrow> bool" where
  "ledger_accepted castString [] s = True"
| "ledger_accepted castString ((e, r) # rest) s =
     (\<not> ledger_refused (fst (perform castString e r s))
      \<and> ledger_accepted castString rest (snd (perform castString e r s)))"

section \<open>Properties\<close>

subsection \<open>Entitlement queries\<close>

text \<open>
  C9. For every user and every time \<open>t\<close>, \<open>isUserSubscribed\<close> is true exactly when some
  subscription record of the user has a status among active and trialing and a
  \<open>currentPeriodEnd\<close> strictly later than \<open>t\<close>; the query \<open>getActiveForUser\<close> it derives
  from returns a record in exactly the same case. A record whose status still reads
  active but whose period end is not later than \<open>t\<close> does not count.
\<close>

theorem isUserSubscribed_iff:
  "(isUserSubscribed t s userId \<longleftrightarrow>
      (\<exists>d \<in> set (subscriptions s). sub_userId d = userId
         \<and> (sub_status d = ''active'' \<or> sub_status d = ''trialing'')
         \<and> (\<exists>e. currentPeriodEnd d = Some e \<and> t < e)))
   \<and> (getActiveForUser t s userId \<noteq> None \<longleftrightarrow>
      (\<exists>d \<in> set (subscriptions s). sub_userId d = userId
         \<and> (sub_status d = ''active'' \<or> sub_status d = ''trialing'')
         \<and> (\<exists>e. currentPeriodEnd d = Some e \<and> t < e)))"
  unfolding isUserSubscribed_def getActiveForUser_def
  by (auto simp: find_None_iff active_filter_def split: option.splits)

theorem isUserSubscribed_iff_witness:
  "sub_status sub_stale = ''active'' \<and> \<not> isUserSubscribed 2000 s_stale ''u1''
   \<and> isUserSubscribed 999 s_stale ''u1''"
  using isUserSubscribed_iff [of 2000 s_stale "''u1''"] isUserSubscribed_iff [of 999 s_stale "''u1''"]
  by (simp add: s_stale_def sub_stale_def)

subsection \<open>The debit contract\<close>

text \<open>
  C5. For a non-admin user whose balance is strictly less than the cost the credit check
  finds for the action, \<open>deductCredits\<close> leaves the whole database as it was (balance and
  ledger included) and returns the failure descriptor with the required and the
  available amount.
\<close>

theorem deductCredits_insufficient:
  assumes "User_findById s userId = Some u" and "role u \<noteq> ''admin''"
    and "checkCredits castString s userId action = Inr cc"
    and "credits u < required cc"
  shows "deductCredits castString userId action s =
           (Inr \<lparr>success = False, creditsDeducted = 0, remaining = Finite (credits u),
                 dr_required = Some (required cc), dr_unlimited = False,
                 dr_error = Some (required cc, Finite (credits u))\<rparr>, s)"
  using assms
  by (auto simp: deductCredits_def checkCredits_def deductCredits_commit_def Let_def
      split: option.splits property.splits)

theorem deductCredits_insufficient_witness:
  "deductCredits no_cast ''u1'' ''resume_creation'' s_two_credits =
     (Inr \<lparr>success = False, creditsDeducted = 0, remaining = Finite 2,
           dr_required = Some 3, dr_unlimited = False, dr_error = Some (3, Finite 2)\<rparr>,
      s_two_credits)
   \<and> User_findById s_two_credits ''u1'' = Some \<lparr>email = ''u1@example.org'', role = ''user'', credits = 2\<rparr>"
proof -
  let ?u = "\<lparr>email = ''u1@example.org'', role = ''user'', credits = 2\<rparr>"
  let ?cc = "\<lparr>hasCredits = False, required = 3, available = Finite 2, unlimited = False\<rparr>"
  have h1: "User_findById s_two_credits ''u1'' = Some ?u"
    by (simp add: User_findById_def s_two_credits_def)
  have h2: "role ?u \<noteq> ''admin''" by simp
  have h3: "checkCredits no_cast s_two_credits ''u1'' ''resume_creation'' = Inr ?cc"
    by (simp add: checkCredits_def User_findById_def s_two_credits_def js_lookup_def costMap_def
        AppSettings_get_def)
  have h4: "credits ?u < required ?cc" by simp
  show ?thesis using deductCredits_insufficient [OF h1 h2 h3 h4] h1 by simp
qed

text \<open>
  Where the property read finds nothing, the guard works: for a non-admin user
  \<open>checkCredits\<close>, and with it \<open>deductCredits\<close>, throws the unknown-action error and
  changes nothing. For an administrator \<open>checkCredits\<close> succeeds for every action key
  with required 0, the short-circuit coming before the validation of the action, and the
  debit appends a usage entry with magnitude 0 and a null balance snapshot whenever the
  label it stores as the description is a non-empty string.
\<close>

lemma checkCredits_guard:
  assumes "User_findById s userId = Some u"
  shows "(role u \<noteq> ''admin'' \<longrightarrow> js_lookup costMap action = None
            \<longrightarrow> checkCredits castString s userId action
                  = Inl (Error (''Unknown credit action: '' @ action))
                \<and> deductCredits castString userId action s
                  = (Inl (Error (''Unknown credit action: '' @ action)), s))
       \<and> (role u = ''admin'' \<longrightarrow>
            checkCredits castString s userId action
              = Inr \<lparr>hasCredits = True, required = 0, available = Infinity, unlimited = True\<rparr>
            \<and> (\<forall>l. label_of castString action = Some l \<longrightarrow> l \<noteq> [] \<longrightarrow>
                 deductCredits castString userId action s
                   = (Inr \<lparr>success = True, creditsDeducted = 0, remaining = Infinity,
                           dr_required = None, dr_unlimited = True, dr_error = None\<rparr>,
                      s\<lparr>creditLogs := creditLogs s @
                          [\<lparr>cl_userId = userId, cl_type = ''usage'', cl_action = Some action,
                            cl_credits = 0, cl_balanceAfter = None, cl_description = l\<rparr>]\<rparr>)))"
  using assms
  by (simp add: checkCredits_def deductCredits_def deductCredits_commit_def
      CreditLog_create_def creditLog_types_def)

subsection \<open>Defects shown at a concrete input\<close>

text \<open>
  C10. The guard \<^verbatim>\<open>if (!settingKey) throw\<close> is missed for an action key that names a
  property inherited from \<^verbatim>\<open>Object.prototype\<close>. The key \<^verbatim>\<open>constructor\<close> is not a key of
  the cost map, yet the property read finds the inherited function, the guard passes,
  and the credit check of a non-admin user with balance 2 succeeds with the default cost
  1; the debit then takes one credit for the unknown action. And an administrator's debit
  with the empty action key, which passes the credit check like every key, writes no
  ledger entry: the label falls back to the empty action, which the required description
  refuses.
\<close>

theorem checkCredits_inherited_key_not_refused:
  "map_of costMap ''constructor'' = None
   \<and> checkCredits v8_cast s_two_credits ''u1'' ''constructor'' =
       Inr \<lparr>hasCredits = True, required = 1, available = Finite 2, unlimited = False\<rparr>
   \<and> fst (deductCredits v8_cast ''u1'' ''constructor'' s_two_credits) =
       Inr \<lparr>success = True, creditsDeducted = 1, remaining = Finite 1,
             dr_required = None, dr_unlimited = False, dr_error = None\<rparr>
   \<and> map_option credits
        (User_findById (snd (deductCredits v8_cast ''u1'' ''constructor'' s_two_credits)) ''u1'')
       = Some 1
   \<and> deductCredits v8_cast ''adm'' [] s_two_credits =
       (Inl (ValidationError ''description''), s_two_credits)"
  by code_simp

text \<open>
  C2. The debit is not one conditional update: \<open>deductCredits\<close> is the credit check
  followed by \<open>deductCredits_commit\<close>, whose \<^verbatim>\<open>$inc\<close> carries no guard. Two debits of a
  user with one credit, for an action costing one credit, both pass the check on the
  same database before either commits; the two commits then leave the balance at -1.
\<close>

theorem concurrent_debits_negative_balance:
  "checkCredits no_cast s_one_credit ''u1'' ''resume_creation'' = Inr cc_one
   \<and> hasCredits cc_one
   \<and> map_option credits
        (User_findById
           (snd (deductCredits_commit no_cast cc_one ''u1'' ''resume_creation''
              (snd (deductCredits_commit no_cast cc_one ''u1'' ''resume_creation'' s_one_credit))))
           ''u1'')
       = Some (- 1)"
  by code_simp

text \<open>
  C3. The webhook path has no check for a session already processed. The
  checkout-completed event of session \<^verbatim>\<open>sess_1\<close>, granting 10 credits to a user with
  balance 2, delivered twice: the balance is 22 and the journal holds two completed
  entries for the session.
\<close>

theorem checkout_redelivery_double_credit:
  "map_option credits
     (User_findById
        (run no_cast [(stripe_down, Webhook (CheckoutSessionCompleted sess_1)),
                      (stripe_down, Webhook (CheckoutSessionCompleted sess_1))] s_two_credits)
        ''u1'') = Some 22
   \<and> length (filter (\<lambda>t. tx_stripeSessionId t = Some ''sess_1'' \<and> tx_status t = ''completed'')
        (transactions
           (run no_cast [(stripe_down, Webhook (CheckoutSessionCompleted sess_1)),
                         (stripe_down, Webhook (CheckoutSessionCompleted sess_1))] s_two_credits)))
       = 2"
  by code_simp

text \<open>
  C6. The enum of the transaction schema has no \<^verbatim>\<open>subscription_switch\<close>. The paid
  invoice of a plan switch on a yearly subscription credits the yearly allotment (700)
  and logs it, then the journal refuses the entry: the handler throws, no transaction is
  written, and a second delivery of the same invoice credits the allotment again
  (balance 2, then 702, then 1402).
\<close>

theorem switch_invoice_transaction_rejected:
  "''subscription_switch'' \<notin> set transaction_types
   \<and> fst (perform no_cast stripe_down (Webhook (InvoicePaymentSucceeded inv_switch)) s_yearly)
       = Some (ValidationError ''type'')
   \<and> transactions (snd (perform no_cast stripe_down (Webhook (InvoicePaymentSucceeded inv_switch)) s_yearly)) = []
   \<and> map_option credits
        (User_findById
           (snd (perform no_cast stripe_down (Webhook (InvoicePaymentSucceeded inv_switch)) s_yearly))
           ''u1'') = Some 702
   \<and> map_option credits
        (User_findById
           (run no_cast [(stripe_down, Webhook (InvoicePaymentSucceeded inv_switch)),
                         (stripe_down, Webhook (InvoicePaymentSucceeded inv_switch))] s_yearly)
           ''u1'') = Some 1402"
  by code_simp

subsection \<open>Collections: when a write succeeds\<close>

lemma Transaction_create_ok:
  "tx_type d \<in> set transaction_types \<Longrightarrow> tx_status d \<in> set transaction_statuses
   \<Longrightarrow> (case tx_plan d of None \<Rightarrow> True | Some p \<Rightarrow> p \<in> set plans)
   \<Longrightarrow> Transaction_create d s = (Inr (), s\<lparr>transactions := transactions s @ [d]\<rparr>)"
  by (auto simp: Transaction_create_def split: option.splits)

lemma CreditLog_create_ok:
  "cl_type d \<in> set creditLog_types \<Longrightarrow> 0 \<le> cl_credits d \<Longrightarrow> cl_description d \<noteq> []
   \<Longrightarrow> CreditLog_create d s = (Inr (), s\<lparr>creditLogs := creditLogs s @ [d]\<rparr>)"
  by (simp add: CreditLog_create_def)

lemma find_snoc_hit: "P x \<Longrightarrow> find P (xs @ [x]) \<noteq> None"
  by (induction xs) auto

subsection \<open>Invoice payments\<close>

lemma invoice_skip:
  "invoice_skipped iv s \<Longrightarrow> handleInvoicePaymentSucceeded iv s = (Inr (), s)"
  by (auto simp: invoice_skipped_def handleInvoicePaymentSucceeded_def Let_def split: option.splits)

lemma invoice_grant:
  assumes "\<not> invoice_skipped iv s"
    and "find (\<lambda>d. stripeSubscriptionId d = inv_subscription iv) (subscriptions s) = Some sub"
    and "inv_billing_reason iv \<noteq> ''subscription_update''"
    and "sub_plan sub \<in> set plans" and "0 \<le> creditLimitForPlan s (sub_plan sub)"
  shows "handleInvoicePaymentSucceeded iv s = (Inr (), renewal_granted iv sub s)"
  using assms
  by (auto simp: invoice_skipped_def handleInvoicePaymentSucceeded_def Let_def
      CreditLog_create_ok Transaction_create_ok creditLog_types_def transaction_types_def
      transaction_statuses_def User_inc_credits_def renewal_entry_def renewal_transaction_def
      renewal_granted_def split: option.splits)

lemma renewal_granted_skipped: "invoice_skipped iv (renewal_granted iv sub s)"
proof -
  have "find (\<lambda>t. tx_stripeInvoiceId t = Some (inv_id iv))
          (transactions s @ [renewal_transaction iv sub s]) \<noteq> None"
    by (rule find_snoc_hit) (simp add: renewal_transaction_def)
  then show ?thesis
    by (simp add: invoice_skipped_def renewal_granted_def)
qed

text \<open>
  C4, as stated, fails. A paid renewal invoice (amount 1000, billing reason
  \<^verbatim>\<open>subscription_cycle\<close>, no journal entry for its id) that names a subscription without
  a local record: none of the claim's three conditions holds, yet the handler writes
  nothing.
\<close>

theorem invoice_without_record_counterexample:
  "find (\<lambda>t. tx_stripeInvoiceId t = Some (inv_id inv_renewal)) (transactions s_two_credits) = None
   \<and> inv_amount_paid inv_renewal = Some 1000
   \<and> inv_billing_reason inv_renewal = ''subscription_cycle''
   \<and> handleInvoicePaymentSucceeded inv_renewal s_two_credits = (Inr (), s_two_credits)"
  by code_simp

text \<open>
  C4, amended. For every invoice-payment-succeeded event: if the invoice names no
  subscription, or is the initial-subscription invoice, or its paid amount is not
  positive, or no local subscription record has its subscription reference, or a
  transaction for the invoice id already exists, processing is a no-op. Otherwise, for an
  invoice that is not a plan switch, on a record whose plan is monthly or yearly and with
  a non-negative configured allotment, the plan's allotment is credited to the record's
  user, one ledger entry and one completed transaction entry keyed by the invoice id are
  written, and processing the same invoice again is a no-op: the renewal never grants
  credits twice.
\<close>

theorem invoice_payment_succeeded_once:
  "(invoice_skipped iv s \<longrightarrow> handleInvoicePaymentSucceeded iv s = (Inr (), s))
   \<and> (\<not> invoice_skipped iv s
       \<and> find (\<lambda>d. stripeSubscriptionId d = inv_subscription iv) (subscriptions s) = Some sub
       \<and> inv_billing_reason iv \<noteq> ''subscription_update''
       \<and> sub_plan sub \<in> set plans \<and> 0 \<le> creditLimitForPlan s (sub_plan sub)
      \<longrightarrow> handleInvoicePaymentSucceeded iv s = (Inr (), renewal_granted iv sub s)
          \<and> tx_stripeInvoiceId (renewal_transaction iv sub s) = Some (inv_id iv)
          \<and> tx_creditsAdded (renewal_transaction iv sub s) = creditLimitForPlan s (sub_plan sub)
          \<and> handleInvoicePaymentSucceeded iv (renewal_granted iv sub s)
              = (Inr (), renewal_granted iv sub s))"
  using invoice_skip [of iv s] invoice_grant [of iv s sub]
    invoice_skip [OF renewal_granted_skipped, of iv sub s]
  by (simp add: renewal_transaction_def)

theorem invoice_payment_succeeded_once_witness:
  "\<not> invoice_skipped inv_renewal s_yearly
   \<and> handleInvoicePaymentSucceeded inv_renewal s_yearly
       = (Inr (), renewal_granted inv_renewal sub_yearly s_yearly)
   \<and> handleInvoicePaymentSucceeded inv_renewal (renewal_granted inv_renewal sub_yearly s_yearly)
       = (Inr (), renewal_granted inv_renewal sub_yearly s_yearly)
   \<and> map_option credits (User_findById (renewal_granted inv_renewal sub_yearly s_yearly) ''u1'') = Some 702
   \<and> invoice_skipped inv_switch (s_yearly\<lparr>transactions := [renewal_transaction inv_switch sub_yearly s_yearly]\<rparr>)
   \<and> handleInvoicePaymentSucceeded inv_switch
        (s_yearly\<lparr>transactions := [renewal_transaction inv_switch sub_yearly s_yearly]\<rparr>)
       = (Inr (), s_yearly\<lparr>transactions := [renewal_transaction inv_switch sub_yearly s_yearly]\<rparr>)"
proof -
  have a: "\<not> invoice_skipped inv_renewal s_yearly" by code_simp
  have b: "find (\<lambda>d. stripeSubscriptionId d = inv_subscription inv_renewal) (subscriptions s_yearly)
             = Some sub_yearly" by code_simp
  have c: "inv_billing_reason inv_renewal \<noteq> ''subscription_update''"
    by (simp add: inv_renewal_def)
  have d: "sub_plan sub_yearly \<in> set plans" by (simp add: sub_yearly_def plans_def)
  have e: "0 \<le> creditLimitForPlan s_yearly (sub_plan sub_yearly)" by code_simp
  have f: "map_option credits (User_findById (renewal_granted inv_renewal sub_yearly s_yearly) ''u1'') = Some 702"
    by code_simp
  have g: "invoice_skipped inv_switch
             (s_yearly\<lparr>transactions := [renewal_transaction inv_switch sub_yearly s_yearly]\<rparr>)"
    by code_simp
  show ?thesis
    using invoice_payment_succeeded_once [of inv_renewal s_yearly sub_yearly]
      invoice_payment_succeeded_once
        [of inv_switch "s_yearly\<lparr>transactions := [renewal_transaction inv_switch sub_yearly s_yearly]\<rparr>" sub_yearly]
      a b c d e f g
    by simp
qed

subsection \<open>Subscription status: what moves an expired record\<close>

lemma length_update_first [simp]: "length (update_first P f xs) = length xs"
  by (induction xs) auto

lemma update_first_nth:
  "i < length xs \<Longrightarrow>
     update_first P f xs ! i = xs ! i \<or> (P (xs ! i) \<and> update_first P f xs ! i = f (xs ! i))"
proof (induction xs arbitrary: i)
  case Nil
  then show ?case by simp
next
  case (Cons x xs)
  then show ?case by (cases i) auto
qed

lemma Transaction_create_subs [simp]: "subscriptions (snd (Transaction_create d s)) = subscriptions s"
  by (simp add: Transaction_create_def)

lemma CreditLog_create_subs [simp]: "subscriptions (snd (CreditLog_create d s)) = subscriptions s"
  by (simp add: CreditLog_create_def)

lemma User_inc_credits_subs [simp]: "subscriptions (snd (User_inc_credits u n s)) = subscriptions s"
  by (simp add: User_inc_credits_def Let_def split: option.splits)

lemma save_nth:
  assumes "i < length (subscriptions s)"
  shows "subscriptions (snd (Subscription_save P f s)) ! i = subscriptions s ! i
       \<or> (P (subscriptions s ! i) \<and> subscriptions (snd (Subscription_save P f s)) ! i = f (subscriptions s ! i))"
  using update_first_nth [OF assms, of P f]
  by (auto simp: Subscription_save_def split: option.splits)

lemma save_length [simp]: "length (subscriptions (snd (Subscription_save P f s))) = length (subscriptions s)"
  by (auto simp: Subscription_save_def split: option.splits)

lemma upsert_nth:
  assumes "i < length (subscriptions s)"
  shows "subscriptions (snd (Subscription_upsert u sid doc s)) ! i = subscriptions s ! i
       \<or> (sub_userId (subscriptions s ! i) = u \<and> stripeSubscriptionId (subscriptions s ! i) = Some sid
          \<and> subscriptions (snd (Subscription_upsert u sid doc s)) ! i = doc)"
  using update_first_nth [OF assms, of "\<lambda>d. sub_userId d = u \<and> stripeSubscriptionId d = Some sid" "\<lambda>_. doc"] assms
  by (auto simp: Subscription_upsert_def Let_def nth_append split: option.splits)

lemma revived_changed: "revived s s' i \<Longrightarrow> subscriptions s' ! i \<noteq> subscriptions s ! i"
  by (auto simp: revived_def)

lemma revived_same: "subscriptions s' = subscriptions s \<Longrightarrow> \<not> revived s s' i"
  by (auto simp: revived_def)

lemma updated_revives:
  assumes "revived s (snd (handleSubscriptionUpdated e sub s)) i"
  shows "stripeSubscriptionId (subscriptions s ! i) = Some (ss_id sub)
       \<and> (ss_status sub = ''active'' \<or> ss_status sub = ''trialing'')"
proof -
  let ?P = "\<lambda>d. stripeSubscriptionId d = Some (ss_id sub)"
  from assms have i: "i < length (subscriptions s)"
    by (simp add: revived_def)
  show ?thesis
  proof (cases "find ?P (subscriptions s)")
    case None
    then have "snd (handleSubscriptionUpdated e sub s) = s"
      by (simp add: handleSubscriptionUpdated_def)
    with assms revived_same show ?thesis by metis
  next
    case (Some d)
    obtain f where run: "handleSubscriptionUpdated e sub s = Subscription_save ?P f s"
      and st: "\<And>d. sub_status (f d) = ss_status sub"
    proof (cases "extractPeriodDates e sub")
      case (Pair a b)
      show thesis
        by (rule that [of "\<lambda>subscription.
               (let d1 = subscription
                      \<lparr>sub_status := ss_status sub, currentPeriodStart := Some a,
                       currentPeriodEnd := Some b,
                       cancelAtPeriodEnd := ss_cancel_at_period_end sub\<rparr>;
                    interval = interval_of sub
                in if truthy interval
                   then d1\<lparr>sub_plan := (if interval = Some ''year'' then ''yearly'' else ''monthly'')\<rparr>
                   else d1)"])
          (simp_all add: handleSubscriptionUpdated_def Some Pair Let_def)
    qed
    from save_nth [OF i, of ?P f] revived_changed [OF assms] assms show ?thesis
      by (auto simp: run st revived_def)
  qed
qed

lemma deleted_revives: "\<not> revived s (snd (handleSubscriptionDeleted sub s)) i"
proof
  assume r: "revived s (snd (handleSubscriptionDeleted sub s)) i"
  then have i: "i < length (subscriptions s)" by (simp add: revived_def)
  let ?P = "\<lambda>d. stripeSubscriptionId d = Some (ss_id sub)"
  have subs: "subscriptions (snd (handleSubscriptionDeleted sub s))
                = subscriptions (snd (Subscription_save ?P (\<lambda>d. d\<lparr>sub_status := ''expired''\<rparr>) s))
              \<or> subscriptions (snd (handleSubscriptionDeleted sub s)) = subscriptions s"
    by (auto simp: handleSubscriptionDeleted_def Let_def privatize_resumes_def split: option.splits prod.splits sum.splits)
  show False
    using r subs save_nth [OF i, of ?P "\<lambda>d. d\<lparr>sub_status := ''expired''\<rparr>"]
    by (auto simp: revived_def)
qed

lemma failed_revives: "\<not> revived s (snd (handlePaymentFailed iv s)) i"
proof
  assume r: "revived s (snd (handlePaymentFailed iv s)) i"
  then have i: "i < length (subscriptions s)" by (simp add: revived_def)
  let ?P = "\<lambda>d. stripeSubscriptionId d = inv_subscription iv"
  have subs: "subscriptions (snd (handlePaymentFailed iv s))
                = subscriptions (snd (Subscription_save ?P (\<lambda>d. d\<lparr>sub_status := ''past_due''\<rparr>) s))
              \<or> subscriptions (snd (handlePaymentFailed iv s)) = subscriptions s"
    by (auto simp: handlePaymentFailed_def Let_def Transaction_create_def split: option.splits prod.splits sum.splits)
  show False
    using r subs save_nth [OF i, of ?P "\<lambda>d. d\<lparr>sub_status := ''past_due''\<rparr>"]
    by (auto simp: revived_def)
qed

lemma succeeded_subs: "subscriptions (snd (handleInvoicePaymentSucceeded iv s)) = subscriptions s"
  by (auto simp: handleInvoicePaymentSucceeded_def Let_def Transaction_create_def CreditLog_create_def
      User_inc_credits_def split: option.splits prod.splits sum.splits)

lemma checkout_subs:
  "subscriptions (snd (handleCheckoutCompleted e ses s)) = subscriptions s
   \<or> (ses_type ses = ''subscription''
       \<and> (\<exists>stripeSub doc. subscriptions_retrieve e (Some (ses_subscription ses)) = Inr stripeSub
             \<and> sub_status doc = ss_status stripeSub
             \<and> subscriptions (snd (handleCheckoutCompleted e ses s))
                 = subscriptions (snd (Subscription_upsert (ses_userId ses) (ses_subscription ses) doc s))))"
proof (cases "ses_type ses = ''subscription''")
  case False
  then show ?thesis
    by (auto simp: handleCheckoutCompleted_def Let_def Transaction_create_def CreditLog_create_def
        User_inc_credits_def split: option.splits prod.splits sum.splits)
next
  case True
  show ?thesis
  proof (cases "subscriptions_retrieve e (Some (ses_subscription ses))")
    case (Inl err)
    with True show ?thesis by (simp add: handleCheckoutCompleted_def Let_def)
  next
    case (Inr stripeSub)
    obtain a b where pd: "extractPeriodDates e stripeSub = (a, b)"
      by (cases "extractPeriodDates e stripeSub")
    let ?doc = "\<lparr>sub_userId = ses_userId ses, stripeCustomerId = Some (ses_customer ses),
                  stripeSubscriptionId = Some (ses_subscription ses), sub_plan = ses_plan ses,
                  sub_status = ss_status stripeSub, currentPeriodStart = Some a,
                  currentPeriodEnd = Some b,
                  cancelAtPeriodEnd = ss_cancel_at_period_end stripeSub,
                  sub_features = all_features\<rparr>"
    have "subscriptions (snd (handleCheckoutCompleted e ses s))
            = subscriptions (snd (Subscription_upsert (ses_userId ses) (ses_subscription ses) ?doc s))"
      using True Inr pd
      by (auto simp: handleCheckoutCompleted_def Let_def Transaction_create_def CreditLog_create_def
          User_inc_credits_def split: option.splits prod.splits sum.splits)
    with True Inr show ?thesis by (intro disjI2 conjI exI [of _ stripeSub] exI [of _ ?doc]) simp_all
  qed
qed

lemma checkout_revives:
  assumes "revived s (snd (handleCheckoutCompleted e ses s)) i"
  shows "ses_type ses = ''subscription''
       \<and> sub_userId (subscriptions s ! i) = ses_userId ses
       \<and> stripeSubscriptionId (subscriptions s ! i) = Some (ses_subscription ses)
       \<and> (\<exists>stripeSub. subscriptions_retrieve e (Some (ses_subscription ses)) = Inr stripeSub
             \<and> (ss_status stripeSub = ''active'' \<or> ss_status stripeSub = ''trialing''))"
proof -
  from assms have i: "i < length (subscriptions s)" by (simp add: revived_def)
  from checkout_subs [of e ses s] revived_same [of "snd (handleCheckoutCompleted e ses s)" s i] assms
  obtain stripeSub doc where ty: "ses_type ses = ''subscription''"
    and rt: "subscriptions_retrieve e (Some (ses_subscription ses)) = Inr stripeSub"
    and st: "sub_status doc = ss_status stripeSub"
    and eq: "subscriptions (snd (handleCheckoutCompleted e ses s))
               = subscriptions (snd (Subscription_upsert (ses_userId ses) (ses_subscription ses) doc s))"
    by blast
  from upsert_nth [OF i, of "ses_userId ses" "ses_subscription ses" doc] revived_changed [OF assms] assms
  show ?thesis
    by (auto simp: eq ty rt st revived_def)
qed

lemma sync_subs:
  "subscriptions (snd (syncSubscriptionFromStripe e userId s)) = subscriptions s
   \<or> (\<exists>customerId subs trialSubs stripeSub rest doc.
         subscriptions_list e customerId ''active'' 5 = Inr subs
         \<and> subscriptions_list e customerId ''trialing'' 5 = Inr trialSubs
         \<and> subs @ trialSubs = stripeSub # rest
         \<and> sub_status doc = ss_status stripeSub
         \<and> subscriptions (snd (syncSubscriptionFromStripe e userId s))
             = subscriptions (snd (Subscription_upsert userId (ss_id stripeSub) doc s)))"
proof (cases "User_findById s userId")
  case None
  then show ?thesis by (simp add: syncSubscriptionFromStripe_def)
next
  case (Some u)
  show ?thesis
  proof (cases "resolveCustomer e userId u s")
    case (Inl err)
    with Some show ?thesis by (simp add: syncSubscriptionFromStripe_def)
  next
    case (Inr c)
    show ?thesis
    proof (cases c)
      case None
      with Some Inr show ?thesis by (simp add: syncSubscriptionFromStripe_def)
    next
      case (Some customerId)
      note cust = Some
      show ?thesis
      proof (cases "subscriptions_list e customerId ''active'' 5")
        case (Inl err)
        with \<open>User_findById s userId = Some u\<close> Inr cust show ?thesis
          by (simp add: syncSubscriptionFromStripe_def)
      next
        case active: (Inr subs)
        show ?thesis
        proof (cases "subscriptions_list e customerId ''trialing'' 5")
          case (Inl err)
          with \<open>User_findById s userId = Some u\<close> Inr cust active show ?thesis
            by (simp add: syncSubscriptionFromStripe_def)
        next
          case trial: (Inr trialSubs)
          show ?thesis
          proof (cases "subs @ trialSubs")
            case Nil
            with \<open>User_findById s userId = Some u\<close> Inr cust active trial show ?thesis
              by (simp add: syncSubscriptionFromStripe_def)
          next
            case (Cons stripeSub rest)
            obtain a b where pd: "extractPeriodDates e stripeSub = (a, b)"
              by (cases "extractPeriodDates e stripeSub")
            let ?doc = "\<lparr>sub_userId = userId, stripeCustomerId = Some customerId,
                  stripeSubscriptionId = Some (ss_id stripeSub),
                  sub_plan = (if interval_of stripeSub = Some ''year'' then ''yearly'' else ''monthly''),
                  sub_status = ss_status stripeSub, currentPeriodStart = Some a,
                  currentPeriodEnd = Some b,
                  cancelAtPeriodEnd = ss_cancel_at_period_end stripeSub,
                  sub_features = all_features\<rparr>"
            have "subscriptions (snd (syncSubscriptionFromStripe e userId s))
                    = subscriptions (snd (Subscription_upsert userId (ss_id stripeSub) ?doc s))"
              using \<open>User_findById s userId = Some u\<close> Inr cust active trial Cons pd
              by (simp add: syncSubscriptionFromStripe_def Let_def split: prod.splits sum.splits)
            with active trial Cons show ?thesis
              by (intro disjI2 exI [of _ customerId] exI [of _ subs] exI [of _ trialSubs]
                  exI [of _ stripeSub] exI [of _ rest] exI [of _ ?doc]) simp
          qed
        qed
      qed
    qed
  qed
qed

lemma sync_revives:
  assumes "revived s (snd (syncSubscriptionFromStripe e userId s)) i"
  shows "sub_userId (subscriptions s ! i) = userId
       \<and> (\<exists>customerId subs trialSubs stripeSub rest.
             subscriptions_list e customerId ''active'' 5 = Inr subs
             \<and> subscriptions_list e customerId ''trialing'' 5 = Inr trialSubs
             \<and> subs @ trialSubs = stripeSub # rest
             \<and> stripeSubscriptionId (subscriptions s ! i) = Some (ss_id stripeSub)
             \<and> (ss_status stripeSub = ''active'' \<or> ss_status stripeSub = ''trialing''))"
proof -
  from assms have i: "i < length (subscriptions s)" by (simp add: revived_def)
  from sync_subs [of e userId s] revived_same [of "snd (syncSubscriptionFromStripe e userId s)" s i] assms
  obtain customerId subs trialSubs stripeSub rest doc where
    l1: "subscriptions_list e customerId ''active'' 5 = Inr subs"
    and l2: "subscriptions_list e customerId ''trialing'' 5 = Inr trialSubs"
    and hd: "subs @ trialSubs = stripeSub # rest"
    and st: "sub_status doc = ss_status stripeSub"
    and eq: "subscriptions (snd (syncSubscriptionFromStripe e userId s))
               = subscriptions (snd (Subscription_upsert userId (ss_id stripeSub) doc s))"
    by blast
  from upsert_nth [OF i, of userId "ss_id stripeSub" doc] revived_changed [OF assms] assms
  have "sub_userId (subscriptions s ! i) = userId
      \<and> stripeSubscriptionId (subscriptions s ! i) = Some (ss_id stripeSub)
      \<and> (ss_status stripeSub = ''active'' \<or> ss_status stripeSub = ''trialing'')"
    by (auto simp: eq st revived_def)
  with l1 l2 hd show ?thesis by blast
qed

lemma Transaction_create_keeps:
  "Transaction_create d s = (r, s') \<Longrightarrow>
     subscriptions s' = subscriptions s \<and> users s' = users s \<and> creditLogs s' = creditLogs s
     \<and> numSettings s' = numSettings s"
  by (auto simp: Transaction_create_def split: if_splits)

lemma sync_charges_subs: "subscriptions (snd (sync_charges e userId cs n s)) = subscriptions s"
proof (induction cs arbitrary: n s)
  case Nil
  then show ?case by simp
next
  case (Cons c cs)
  show ?case
    by (auto simp: Cons.IH split: option.splits sum.splits prod.splits dest!: Transaction_create_keeps)
qed

lemma sync_intents_subs: "subscriptions (snd (sync_intents e userId ps n s)) = subscriptions s"
proof (induction ps arbitrary: n s)
  case Nil
  then show ?case by simp
next
  case (Cons p ps)
  show ?case
    by (auto simp: Cons.IH split: option.splits sum.splits prod.splits dest!: Transaction_create_keeps)
qed

lemma syncTransactions_subs:
  "subscriptions (snd (syncTransactionsFromStripe e userId s)) = subscriptions s"
proof -
  have "subscriptions (snd (sync_intents e userId ps n (snd (sync_charges e userId cs m s)))) = subscriptions s"
    for ps n cs m
    by (simp add: sync_intents_subs sync_charges_subs)
  then show ?thesis
    by (auto simp: syncTransactionsFromStripe_def sync_charges_subs
        split: option.splits sum.splits prod.splits)
      (metis snd_conv sync_charges_subs sync_intents_subs)+
qed

text \<open>
  C7, as stated, fails. The record of \<^verbatim>\<open>sub_1\<close> is expired. A subscription-updated
  event whose payload reports the subscription as active makes the record active, with
  no checkout; so does a subscription sync when Stripe lists the subscription as active.
\<close>

theorem expired_reactivated_counterexample:
  "map sub_status (subscriptions s_expired) = [''expired'']
   \<and> map sub_status
        (subscriptions (snd (handleWebhookEvent stripe_down (CustomerSubscriptionUpdated ss_active) s_expired)))
       = [''active'']
   \<and> map sub_status
        (subscriptions (snd (syncSubscriptionFromStripe stripe_lists_active ''u1'' s_expired)))
       = [''active'']"
  by code_simp

text \<open>
  C7, amended. For every subscription record and every webhook event or sync call: a
  record whose status is expired becomes active or trialing only when the processor
  reports that status for the record's own subscription reference, through a
  subscription-updated event whose payload carries it, through a checkout-completed
  event of a subscription session of the record's user for which Stripe returns it, or
  through a subscription sync of the record's user for which Stripe lists it. The
  subscription-deleted and invoice events, events about another subscription reference
  and the transaction sync never do so.
\<close>

theorem expired_revived_only_on_processor_status:
  "(revived s (snd (handleWebhookEvent e ev s)) i \<longrightarrow>
      (\<exists>sub. ev = CustomerSubscriptionUpdated sub
          \<and> stripeSubscriptionId (subscriptions s ! i) = Some (ss_id sub)
          \<and> (ss_status sub = ''active'' \<or> ss_status sub = ''trialing''))
      \<or> (\<exists>ses stripeSub. ev = CheckoutSessionCompleted ses
          \<and> ses_type ses = ''subscription''
          \<and> sub_userId (subscriptions s ! i) = ses_userId ses
          \<and> stripeSubscriptionId (subscriptions s ! i) = Some (ses_subscription ses)
          \<and> subscriptions_retrieve e (Some (ses_subscription ses)) = Inr stripeSub
          \<and> (ss_status stripeSub = ''active'' \<or> ss_status stripeSub = ''trialing'')))
   \<and> (revived s (snd (syncSubscriptionFromStripe e userId s)) i \<longrightarrow>
        sub_userId (subscriptions s ! i) = userId
        \<and> (\<exists>customerId subs trialSubs stripeSub rest.
              subscriptions_list e customerId ''active'' 5 = Inr subs
              \<and> subscriptions_list e customerId ''trialing'' 5 = Inr trialSubs
              \<and> subs @ trialSubs = stripeSub # rest
              \<and> stripeSubscriptionId (subscriptions s ! i) = Some (ss_id stripeSub)
              \<and> (ss_status stripeSub = ''active'' \<or> ss_status stripeSub = ''trialing'')))
   \<and> \<not> revived s (snd (syncTransactionsFromStripe e userId s)) i"
proof (intro conjI impI)
  assume r: "revived s (snd (handleWebhookEvent e ev s)) i"
  show "(\<exists>sub. ev = CustomerSubscriptionUpdated sub
          \<and> stripeSubscriptionId (subscriptions s ! i) = Some (ss_id sub)
          \<and> (ss_status sub = ''active'' \<or> ss_status sub = ''trialing''))
      \<or> (\<exists>ses stripeSub. ev = CheckoutSessionCompleted ses
          \<and> ses_type ses = ''subscription''
          \<and> sub_userId (subscriptions s ! i) = ses_userId ses
          \<and> stripeSubscriptionId (subscriptions s ! i) = Some (ses_subscription ses)
          \<and> subscriptions_retrieve e (Some (ses_subscription ses)) = Inr stripeSub
          \<and> (ss_status stripeSub = ''active'' \<or> ss_status stripeSub = ''trialing''))"
  proof (cases ev)
    case (CheckoutSessionCompleted ses)
    with r checkout_revives [of s e ses i] show ?thesis
      by (auto simp: handleWebhookEvent_def)
  next
    case (CustomerSubscriptionUpdated sub)
    with r updated_revives [of s e sub i] show ?thesis
      by (simp add: handleWebhookEvent_def)
  next
    case (CustomerSubscriptionDeleted sub)
    with r deleted_revives [of s sub i] show ?thesis
      by (simp add: handleWebhookEvent_def)
  next
    case (InvoicePaymentSucceeded iv)
    with r revived_same [OF succeeded_subs [of iv s], of i] show ?thesis
      by (simp add: handleWebhookEvent_def)
  next
    case (InvoicePaymentFailed iv)
    with r failed_revives [of s iv i] show ?thesis
      by (simp add: handleWebhookEvent_def)
  next
    case (OtherEvent name)
    with r revived_same [of s s i] show ?thesis
      by (simp add: handleWebhookEvent_def)
  qed
next
  assume "revived s (snd (syncSubscriptionFromStripe e userId s)) i"
  from sync_revives [OF this]
  show "sub_userId (subscriptions s ! i) = userId" by simp
next
  assume "revived s (snd (syncSubscriptionFromStripe e userId s)) i"
  from sync_revives [OF this]
  show "\<exists>customerId subs trialSubs stripeSub rest.
              subscriptions_list e customerId ''active'' 5 = Inr subs
              \<and> subscriptions_list e customerId ''trialing'' 5 = Inr trialSubs
              \<and> subs @ trialSubs = stripeSub # rest
              \<and> stripeSubscriptionId (subscriptions s ! i) = Some (ss_id stripeSub)
              \<and> (ss_status stripeSub = ''active'' \<or> ss_status stripeSub = ''trialing'')" by simp
next
  show "\<not> revived s (snd (syncTransactionsFromStripe e userId s)) i"
    by (rule revived_same [OF syncTransactions_subs])
qed

theorem expired_revived_only_on_processor_status_witness:
  "revived s_expired (snd (handleWebhookEvent stripe_down (CustomerSubscriptionUpdated ss_active) s_expired)) 0
   \<and> stripeSubscriptionId (subscriptions s_expired ! 0) = Some (ss_id ss_active)
   \<and> revived s_expired (snd (syncSubscriptionFromStripe stripe_lists_active ''u1'' s_expired)) 0
   \<and> sub_userId (subscriptions s_expired ! 0) = ''u1''
   \<and> \<not> revived s_expired (snd (handleWebhookEvent stripe_down (CustomerSubscriptionDeleted ss_active) s_expired)) 0"
proof -
  have a: "revived s_expired
             (snd (handleWebhookEvent stripe_down (CustomerSubscriptionUpdated ss_active) s_expired)) 0"
    by code_simp
  have b: "revived s_expired (snd (syncSubscriptionFromStripe stripe_lists_active ''u1'' s_expired)) 0"
    by code_simp
  from expired_revived_only_on_processor_status
         [of s_expired stripe_down "CustomerSubscriptionUpdated ss_active" 0 "''u1''"]
       expired_revived_only_on_processor_status
         [of s_expired stripe_down "CustomerSubscriptionDeleted ss_active" 0 "''u1''"]
       expired_revived_only_on_processor_status
         [of s_expired stripe_lists_active "CustomerSubscriptionDeleted ss_active" 0 "''u1''"]
       a b
  show ?thesis by auto
qed

subsection \<open>Reconciliation: errors and local state\<close>

lemma Subscription_save_err: "Subscription_save P f s = (Inl err, s') \<Longrightarrow> s' = s"
  by (auto simp: Subscription_save_def split: option.splits if_splits)

lemma Subscription_upsert_err: "Subscription_upsert u sid doc s = (Inl err, s') \<Longrightarrow> s' = s"
  by (auto simp: Subscription_upsert_def Let_def split: option.splits)

lemma Transaction_create_error:
  "Transaction_create d s = (Inl err, s') \<Longrightarrow> s' = s \<and> (\<exists>path. err = ValidationError path)"
  by (auto simp: Transaction_create_def split: if_splits)

lemma CreditLog_create_error:
  "CreditLog_create d s = (Inl err, s') \<Longrightarrow> s' = s \<and> (\<exists>path. err = ValidationError path)"
  by (auto simp: CreditLog_create_def split: if_splits)

lemma Subscription_upsert_frame:
  "Subscription_upsert u sid doc s = (r, s1) \<Longrightarrow> s1 = s\<lparr>subscriptions := subscriptions s1\<rparr>"
  by (auto simp: Subscription_upsert_def Let_def split: option.splits)

lemma checkout_error_cases:
  assumes "handleCheckoutCompleted e ses s = (Inl err, s')"
  shows "s' = s \<or> (\<exists>path. err = ValidationError path)"
proof (cases "ses_type ses = ''credit_purchase''")
  case True
  with assms show ?thesis
    by (auto simp: handleCheckoutCompleted_def Let_def
        split: prod.splits sum.splits dest!: Transaction_create_error CreditLog_create_error)
next
  case False
  note np = False
  show ?thesis
  proof (cases "ses_type ses = ''subscription''")
    case False
    with np assms show ?thesis by (simp add: handleCheckoutCompleted_def Let_def)
  next
    case True
    show ?thesis
    proof (cases "subscriptions_retrieve e (Some (ses_subscription ses))")
      case (Inl x)
      with True np assms show ?thesis by (simp add: handleCheckoutCompleted_def Let_def)
    next
      case (Inr stripeSub)
      with True np assms show ?thesis
        by (auto simp: handleCheckoutCompleted_def Let_def
            split: prod.splits sum.splits
            dest!: Transaction_create_error CreditLog_create_error Subscription_upsert_err)
    qed
  qed
qed

lemma createCreditCheckout_state: "snd (createCreditCheckoutSession e u n s) = s"
  by (auto simp: createCreditCheckoutSession_def split: option.splits sum.splits)

lemma billingPortal_state: "snd (createBillingPortalSession e u s) = s"
  by (auto simp: createBillingPortalSession_def split: option.splits sum.splits)

lemma cancel_err: "cancelSubscription e u s = (Inl err, s') \<Longrightarrow> s' = s"
  by (auto simp: cancelSubscription_def split: option.splits sum.splits prod.splits
      dest: Subscription_save_err)

lemma reactivate_err: "reactivateSubscription e u s = (Inl err, s') \<Longrightarrow> s' = s"
  by (auto simp: reactivateSubscription_def Let_def split: option.splits sum.splits prod.splits
      dest: Subscription_save_err)

lemma switchPlan_err: "switchPlan e u p s = (Inl err, s') \<Longrightarrow> s' = s"
  by (auto simp: switchPlan_def Let_def split: option.splits sum.splits prod.splits list.splits if_splits
      dest: Subscription_save_err)

lemma createSubscriptionCheckout_error_cases:
  assumes "createSubscriptionCheckoutSession e u p s = (Inl err, s')"
  shows "s' = s
       \<or> (\<exists>customerId stSub rest.
             err = Error already_on_stripe
             \<and> subscriptions_list e customerId ''active'' 1 = Inr (stSub # rest)
             \<and> s' = s\<lparr>subscriptions :=
                        subscriptions (snd (Subscription_upsert u (ss_id stSub)
                          (conflict_record u p customerId stSub (extractPeriodDates e stSub)) s))\<rparr>)"
proof (cases "User_findById s u")
  case None
  with assms show ?thesis by (simp add: createSubscriptionCheckoutSession_def)
next
  case (Some usr)
  note usr = Some
  show ?thesis
  proof (cases "getActiveForUser (now e) s u")
    case (Some d)
    with usr assms show ?thesis by (simp add: createSubscriptionCheckoutSession_def)
  next
    case None
    note na = None
    show ?thesis
    proof (cases "getOrCreateCustomer e u usr s")
      case (Inl x)
      with usr na assms show ?thesis by (simp add: createSubscriptionCheckoutSession_def)
    next
      case (Inr customerId)
      note cust = Inr
      show ?thesis
      proof (cases "subscriptions_list e customerId ''active'' 1")
        case (Inl x)
        with usr na cust assms show ?thesis by (simp add: createSubscriptionCheckoutSession_def)
      next
        case (Inr subs)
        show ?thesis
        proof (cases subs)
          case Nil
          with usr na cust Inr assms show ?thesis
            by (auto simp: createSubscriptionCheckoutSession_def Let_def split: if_splits sum.splits)
        next
          case (Cons stSub rest)
          obtain a b where pd: "extractPeriodDates e stSub = (a, b)"
            by (cases "extractPeriodDates e stSub")
          let ?doc = "conflict_record u p customerId stSub (extractPeriodDates e stSub)"
          obtain r s1 where up: "Subscription_upsert u (ss_id stSub) ?doc s = (r, s1)"
            by (cases "Subscription_upsert u (ss_id stSub) ?doc s")
          from usr na cust Inr Cons pd up assms
          have res: "(case r of Inl err' \<Rightarrow> (Inl err', s1) | Inr x \<Rightarrow> (Inl (Error already_on_stripe), s1))
                       = (Inl err, s')"
            by (simp add: createSubscriptionCheckoutSession_def conflict_record_def split: sum.splits)
          show ?thesis
          proof (cases r)
            case (Inl x)
            with res up Subscription_upsert_err [of u "ss_id stSub" ?doc s x s1] show ?thesis by simp
          next
            case ok: (Inr d)
            with res have e1: "err = Error already_on_stripe" and e2: "s' = s1" by simp_all
            from Subscription_upsert_frame [OF up] up e2
            have "s' = s\<lparr>subscriptions := subscriptions (snd (Subscription_upsert u (ss_id stSub) ?doc s))\<rparr>"
              by simp
            with e1 Inr Cons show ?thesis by blast
          qed
        qed
      qed
    qed
  qed
qed

lemma syncSubscription_err: "syncSubscriptionFromStripe e u s = (Inl err, s') \<Longrightarrow> s' = s"
  by (auto simp: syncSubscriptionFromStripe_def Let_def
      split: option.splits sum.splits prod.splits list.splits if_splits
      dest: Subscription_upsert_err)

lemma charge_type_valid: "charge_type e c \<in> set transaction_types"
  by (auto simp: charge_type_def transaction_types_def split: sum.splits)

lemma intent_class_valid:
  "intent_class e p = (ty, pl, iid) \<Longrightarrow>
     ty \<in> set transaction_types \<and> (case pl of None \<Rightarrow> True | Some q \<Rightarrow> q \<in> set plans)"
  by (auto simp: intent_class_def transaction_types_def plans_def split: sum.splits if_splits)

lemma sync_charges_no_error: "\<exists>m. fst (sync_charges e u cs n s) = Inr m"
proof (induction cs arbitrary: n s)
  case Nil
  then show ?case by simp
next
  case (Cons c cs)
  show ?case
    using Cons.IH
    by (simp add: Transaction_create_ok charge_type_valid transaction_statuses_def
        split: option.splits)
qed

lemma sync_intents_no_error: "\<exists>m. fst (sync_intents e u ps n s) = Inr m"
proof (induction ps arbitrary: n s)
  case Nil
  then show ?case by simp
next
  case (Cons p ps)
  obtain ty pl iid where ic: "intent_class e p = (ty, pl, iid)"
    by (cases "intent_class e p")
  from intent_class_valid [OF ic] show ?case
    using Cons.IH ic
    by (simp add: Transaction_create_ok transaction_statuses_def split: option.splits)
qed

lemma syncTransactions_err: "syncTransactionsFromStripe e u s = (Inl err, s') \<Longrightarrow> s' = s"
proof -
  assume a: "syncTransactionsFromStripe e u s = (Inl err, s')"
  have c: "fst (sync_charges e u cs 0 s) \<noteq> Inl x" for cs x
    using sync_charges_no_error [of e u cs 0 s] by auto
  have i: "fst (sync_intents e u ps n s1) \<noteq> Inl x" for ps n s1 x
    using sync_intents_no_error [of e u ps n s1] by auto
  from a show ?thesis
    by (auto simp: syncTransactionsFromStripe_def
        split: option.splits sum.splits prod.splits)
      (metis c i fst_conv)+
qed

text \<open>
  C8, as stated, fails, in two ways. A user without a local subscription asks for a
  subscription checkout while Stripe lists an active subscription for the customer: the
  operation first writes that subscription into the local collection and then surfaces
  the already-subscribed conflict. And a session verification whose checkout processing
  is stopped by a schema validator keeps what was written before the stop: for the
  session with credit amount -5 the balance goes from 2 to -3 and the journal entry is
  written before the credit log refuses the negative magnitude.
\<close>

theorem conflict_sync_counterexample:
  "subscriptions s_two_credits = []
   \<and> fst (perform no_cast stripe_lists_active (CreateSubscriptionCheckout ''u1'' ''monthly'') s_two_credits)
       = Some (Error already_on_stripe)
   \<and> map stripeSubscriptionId
        (subscriptions
           (snd (perform no_cast stripe_lists_active (CreateSubscriptionCheckout ''u1'' ''monthly'') s_two_credits)))
       = [Some ''sub_1'']
   \<and> fst (perform no_cast stripe_returns_negative (VerifySession ''sess_2'' ''u1'') s_two_credits)
       = Some (ValidationError ''credits'')
   \<and> map_option credits
        (User_findById
           (snd (perform no_cast stripe_returns_negative (VerifySession ''sess_2'' ''u1'') s_two_credits))
           ''u1'') = Some (- 3)
   \<and> length (transactions
        (snd (perform no_cast stripe_returns_negative (VerifySession ''sess_2'' ''u1'') s_two_credits))) = 1"
  by code_simp

text \<open>
  C8, amended. For every operation of the Reconciliation Service (credit and subscription
  checkout creation, cancel, reactivate, switch plan, billing portal, verify session,
  subscription sync, transaction sync): if the operation surfaces an error to the client,
  processor-side errors included, the local state is exactly as before the call, with one
  exception by design: the subscription checkout creation that finds an active
  subscription listed by the processor reports the already-subscribed conflict after it
  has upserted exactly that subscription (for the requesting user, with the requested
  plan and the processor's status and period) into the subscription collection, every
  other collection, users and balances, ledger and journal, being as before. A session
  verification that ends in a schema validation error leaves the state as its checkout
  processing left it when the validator stopped it; nothing more is said of that case.
\<close>

theorem reconciliation_error_no_mutation:
  assumes "is_reconciliation r" and "perform castString e r s = (Some err, s')"
  shows "s' = s
       \<or> (\<exists>userId plan customerId stSub rest.
             r = CreateSubscriptionCheckout userId plan
             \<and> err = Error already_on_stripe
             \<and> subscriptions_list e customerId ''active'' 1 = Inr (stSub # rest)
             \<and> s' = s\<lparr>subscriptions :=
                        subscriptions (snd (Subscription_upsert userId (ss_id stSub)
                          (conflict_record userId plan customerId stSub (extractPeriodDates e stSub)) s))\<rparr>)
       \<or> (\<exists>sessionId userId ses path.
             r = VerifySession sessionId userId
             \<and> sessions_retrieve e sessionId = Inr (Some ses)
             \<and> err = ValidationError path
             \<and> handleCheckoutCompleted e ses s = (Inl err, s'))"
proof (cases r)
  case (CreateCreditCheckout u n)
  with assms(2) createCreditCheckout_state [of e u n s] show ?thesis
    by (auto simp: perform_def outcome_def split: sum.splits prod.splits)
next
  case (CreateSubscriptionCheckout u p)
  with assms(2) have "createSubscriptionCheckoutSession e u p s = (Inl err, s')"
    by (auto simp: perform_def outcome_def split: sum.splits prod.splits)
  from createSubscriptionCheckout_error_cases [OF this] CreateSubscriptionCheckout
  show ?thesis by blast
next
  case (CancelSubscription u)
  with assms(2) show ?thesis
    by (auto simp: perform_def outcome_def split: sum.splits prod.splits dest: cancel_err)
next
  case (ReactivateSubscription u)
  with assms(2) show ?thesis
    by (auto simp: perform_def outcome_def split: sum.splits prod.splits dest: reactivate_err)
next
  case (SwitchPlan u p)
  with assms(2) show ?thesis
    by (auto simp: perform_def outcome_def split: sum.splits prod.splits dest: switchPlan_err)
next
  case (BillingPortal u)
  with assms(2) billingPortal_state [of e u s] show ?thesis
    by (auto simp: perform_def outcome_def split: sum.splits prod.splits)
next
  case (VerifySession sid u)
  with assms(2) have v: "verifyAndProcessSession e sid u s = (Inl err, s')"
    by (auto simp: perform_def outcome_def split: sum.splits prod.splits)
  show ?thesis
  proof (cases "find (\<lambda>t. tx_stripeSessionId t = Some sid \<and> tx_status t = ''completed'') (transactions s)")
    case (Some tx)
    with v show ?thesis by (simp add: verifyAndProcessSession_def)
  next
    case None
    note nf = None
    show ?thesis
    proof (cases "sessions_retrieve e sid")
      case (Inl x)
      with nf v show ?thesis by (simp add: verifyAndProcessSession_def)
    next
      case (Inr found)
      show ?thesis
      proof (cases found)
        case None
        with nf Inr v show ?thesis by (simp add: verifyAndProcessSession_def)
      next
        case (Some ses)
        show ?thesis
        proof (cases "ses_payment_status ses \<noteq> ''paid'' \<or> ses_userId ses \<noteq> u")
          case True
          with nf Inr Some v show ?thesis
            by (auto simp: verifyAndProcessSession_def split: if_splits)
        next
          case False
          with nf Inr Some v
          have h: "handleCheckoutCompleted e ses s = (Inl err, s')"
            by (auto simp: verifyAndProcessSession_def split: prod.splits sum.splits)
          from checkout_error_cases [OF h] h Inr Some VerifySession show ?thesis by blast
        qed
      qed
    qed
  qed
next
  case (SyncSubscription u)
  with assms(2) show ?thesis
    by (auto simp: perform_def outcome_def split: sum.splits prod.splits dest: syncSubscription_err)
next
  case (SyncTransactions u)
  with assms(2) show ?thesis
    by (auto simp: perform_def outcome_def split: sum.splits prod.splits dest: syncTransactions_err)
qed (use assms(1) in simp_all)

theorem reconciliation_error_no_mutation_witness:
  "is_reconciliation (CancelSubscription ''u1'')
   \<and> perform no_cast stripe_down (CancelSubscription ''u1'') s_yearly
       = (Some (StripeError ''down''), s_yearly)"
proof -
  have a: "is_reconciliation (CancelSubscription ''u1'')" by simp
  have c: "fst (perform no_cast stripe_down (CancelSubscription ''u1'') s_yearly) = Some (StripeError ''down'')"
    by code_simp
  then have d: "perform no_cast stripe_down (CancelSubscription ''u1'') s_yearly
                  = (Some (StripeError ''down''),
                     snd (perform no_cast stripe_down (CancelSubscription ''u1'') s_yearly))"
    by (simp add: prod_eq_iff)
  from reconciliation_error_no_mutation [OF a d]
  have "snd (perform no_cast stripe_down (CancelSubscription ''u1'') s_yearly) = s_yearly"
    by simp
  with d a show ?thesis by simp
qed

subsection \<open>The balance as the sum of the ledger\<close>

lemma running_sum_Cons: "running_sum (a # es) = delta a + running_sum es"
  by (simp add: running_sum_def)

lemma running_sum_Nil: "running_sum [] = 0"
  by (simp add: running_sum_def)

lemma running_sum_snoc: "running_sum (es @ [a]) = running_sum es + delta a"
  by (simp add: running_sum_def)

lemma snapshots_ok_append:
  "snapshots_ok acc (es @ [entry]) =
     (snapshots_ok acc es \<and> cl_balanceAfter entry = Some (acc + running_sum es + delta entry))"
proof (induction es arbitrary: acc)
  case Nil
  show ?case by (simp add: running_sum_Nil)
next
  case (Cons a es)
  have eq: "acc + delta a + running_sum es = acc + running_sum (a # es)"
    by (simp only: running_sum_Cons add.assoc)
  show ?case
    by (simp only: append_Cons snapshots_ok.simps Cons.IH eq conj_assoc)
qed

lemma ledger_same:
  assumes inv: "ledger_consistent s u" and us: "User_findById s' u = User_findById s u"
    and le: "ledger_of s' u = ledger_of s u"
  shows "ledger_consistent s' u"
  using inv by (simp only: ledger_consistent_def us le)

lemma ledger_keeps:
  assumes "ledger_consistent s u" and "users s' = users s" and "creditLogs s' = creditLogs s"
  shows "ledger_consistent s' u"
proof (rule ledger_same [OF assms(1)])
  show "User_findById s' u = User_findById s u" by (simp only: User_findById_def assms(2))
  show "ledger_of s' u = ledger_of s u" by (simp only: ledger_of_def assms(3))
qed

lemma ledger_credit:
  assumes inv: "ledger_consistent s u"
    and us: "users s' = users (snd (User_inc_credits v n s))"
    and cl: "creditLogs s' = creditLogs s @ [entry]"
    and ev: "cl_userId entry = v" and dn: "delta entry = n"
    and ba: "cl_balanceAfter entry = map_option credits (fst (User_inc_credits v n s))"
  shows "ledger_consistent s' u"
proof -
  from inv obtain usr where usr: "User_findById s u = Some usr" and ro: "role usr \<noteq> ''admin''"
    and bal: "credits usr = running_sum (ledger_of s u)" and sn: "snapshots_ok 0 (ledger_of s u)"
    by (cases "User_findById s u") (simp_all add: ledger_consistent_def)
  show ?thesis
  proof (cases "v = u")
    case False
    have f: "User_findById s' u = User_findById s u"
    proof (cases "User_findById s v")
      case None
      then show ?thesis by (simp add: User_findById_def us User_inc_credits_def)
    next
      case (Some x)
      with False show ?thesis
        by (simp add: User_findById_def us User_inc_credits_def Let_def update_conv')
    qed
    have l: "ledger_of s' u = ledger_of s u"
      using False cl ev by (simp add: ledger_of_def)
    from inv f l show ?thesis by (rule ledger_same)
  next
    case True
    have inc: "User_inc_credits u n s
                 = (Some (usr\<lparr>credits := credits usr + n\<rparr>),
                    s\<lparr>users := AList.update u (usr\<lparr>credits := credits usr + n\<rparr>) (users s)\<rparr>)"
      using usr by (simp add: User_inc_credits_def Let_def)
    have u': "User_findById s' u = Some (usr\<lparr>credits := credits usr + n\<rparr>)"
      using us True inc by (simp add: User_findById_def update_conv')
    have l': "ledger_of s' u = ledger_of s u @ [entry]"
      using cl ev True by (simp add: ledger_of_def)
    have b': "cl_balanceAfter entry = Some (credits usr + n)"
      using ba True inc by simp
    show ?thesis
      using ro bal sn dn b'
      by (simp add: ledger_consistent_def u' l' snapshots_ok_append running_sum_snoc)
  qed
qed

text \<open>An entry about another user.\<close>

lemma ledger_foreign_entry:
  assumes inv: "ledger_consistent s u" and us: "users s' = users s"
    and cl: "creditLogs s' = creditLogs s @ [entry]" and ev: "cl_userId entry \<noteq> u"
  shows "ledger_consistent s' u"
proof (rule ledger_same [OF inv])
  show "User_findById s' u = User_findById s u" by (simp only: User_findById_def us)
  show "ledger_of s' u = ledger_of s u" using cl ev by (simp add: ledger_of_def)
qed


lemma CreditLog_create_cases:
  "CreditLog_create d s = (r, s') \<Longrightarrow> cl_type d \<in> set creditLog_types \<Longrightarrow>
     ((r = Inl (ValidationError ''credits'') \<or> r = Inl (ValidationError ''description'')) \<and> s' = s)
     \<or> (r = Inr () \<and> s' = s\<lparr>creditLogs := creditLogs s @ [d]\<rparr>)"
  by (auto simp: CreditLog_create_def split: if_splits)

lemma User_inc_credits_logs: "User_inc_credits v n s = (upd, s1) \<Longrightarrow> creditLogs s1 = creditLogs s"
  by (auto simp: User_inc_credits_def Let_def split: option.splits)

text \<open>The pattern of every grant and debit: the increment, then the entry, other writes around them.\<close>

lemma credit_then_log:
  assumes inv: "ledger_consistent s u"
    and inc: "User_inc_credits v n s = (upd, s1)"
    and mid: "users s2 = users s1" "creditLogs s2 = creditLogs s1"
    and log: "CreditLog_create entry s2 = (Inr (), s3)"
    and after: "users s4 = users s3" "creditLogs s4 = creditLogs s3"
    and ent: "cl_userId entry = v" "delta entry = n" "cl_balanceAfter entry = map_option credits upd"
  shows "ledger_consistent s4 u"
proof (rule ledger_credit [OF inv _ _ ent(1) ent(2)])
  from log have s3: "s3 = s2\<lparr>creditLogs := creditLogs s2 @ [entry]\<rparr>"
    by (auto simp: CreditLog_create_def split: if_splits)
  show "users s4 = users (snd (User_inc_credits v n s))"
    using after(1) s3 mid(1) inc by simp
  show "creditLogs s4 = creditLogs s @ [entry]"
    using after(2) s3 mid(2) User_inc_credits_logs [OF inc] by simp
  show "cl_balanceAfter entry = map_option credits (fst (User_inc_credits v n s))"
    using ent(3) inc by simp
qed

lemma invoice_ledger:
  assumes inv: "ledger_consistent s u"
    and nve: "fst (handleInvoicePaymentSucceeded iv s) \<noteq> Inl (ValidationError ''credits'')"
      "fst (handleInvoicePaymentSucceeded iv s) \<noteq> Inl (ValidationError ''description'')"
  shows "ledger_consistent (snd (handleInvoicePaymentSucceeded iv s)) u"
proof (cases "invoice_skipped iv s")
  case True
  with invoice_skip [OF True] inv show ?thesis by simp
next
  case False
  then obtain sub where sub: "find (\<lambda>d. stripeSubscriptionId d = inv_subscription iv) (subscriptions s) = Some sub"
    by (auto simp: invoice_skipped_def)
  let ?n = "creditLimitForPlan s (sub_plan sub)"
  obtain upd s1 where inc: "User_inc_credits (sub_userId sub) ?n s = (upd, s1)"
    by (cases "User_inc_credits (sub_userId sub) ?n s")
  let ?entry = "\<lparr>cl_userId = sub_userId sub, cl_type = ''addition'',
                  cl_action = None, cl_credits = ?n,
                  cl_balanceAfter = map_option credits upd,
                  cl_description =
                    (if inv_billing_reason iv = ''subscription_update'' then ''Plan switch - credits added''
                     else ''Subscription renewal - credits added'')\<rparr>"
  obtain r s2 where log: "CreditLog_create ?entry s1 = (r, s2)"
    by (cases "CreditLog_create ?entry s1")
  let ?tx = "\<lparr>tx_userId = sub_userId sub, tx_stripeSessionId = None,
               tx_stripePaymentIntentId = inv_payment_intent iv,
               tx_stripeSubscriptionId = inv_subscription iv,
               tx_stripeInvoiceId = Some (inv_id iv),
               tx_type = (if inv_billing_reason iv = ''subscription_update'' then ''subscription_switch''
                          else ''subscription_renewal''),
               tx_status = ''completed'',
               tx_amount = (case inv_amount_paid iv of Some a \<Rightarrow> a | None \<Rightarrow> 0),
               tx_currency = or_else (inv_currency iv) ''usd'', tx_creditsAdded = ?n,
               tx_plan = Some (sub_plan sub),
               tx_stripeEventType = ''invoice.payment_succeeded'',
               tx_metaChargeId = None, tx_metaPaymentIntentId = None\<rparr>"
  have run: "handleInvoicePaymentSucceeded iv s
               = (case r of Inl err \<Rightarrow> (Inl err, s2) | Inr x \<Rightarrow> Transaction_create ?tx s2)"
    using False sub inc log
    by (auto simp: invoice_skipped_def handleInvoicePaymentSucceeded_def Let_def
        split: option.splits sum.splits)
  have ty: "cl_type ?entry \<in> set creditLog_types" by (simp add: creditLog_types_def)
  from CreditLog_create_cases [OF log ty] show ?thesis
  proof
    assume "(r = Inl (ValidationError ''credits'') \<or> r = Inl (ValidationError ''description'')) \<and> s2 = s1"
    with run have "fst (handleInvoicePaymentSucceeded iv s) = Inl (ValidationError ''credits'')
        \<or> fst (handleInvoicePaymentSucceeded iv s) = Inl (ValidationError ''description'')"
      by auto
    with nve show ?thesis by blast
  next
    assume ok: "r = Inr () \<and> s2 = s1\<lparr>creditLogs := creditLogs s1 @ [?entry]\<rparr>"
    obtain r3 s3 where tx: "Transaction_create ?tx s2 = (r3, s3)"
      by (cases "Transaction_create ?tx s2")
    from ok run tx have fin: "snd (handleInvoicePaymentSucceeded iv s) = s3" by simp
    from ok log have log': "CreditLog_create ?entry s1 = (Inr (), s2)" by simp
    from Transaction_create_keeps [OF tx] have k: "users s3 = users s2" "creditLogs s3 = creditLogs s2"
      by simp_all
    have "ledger_consistent s3 u"
      by (rule credit_then_log [OF inv inc refl refl log' k]) (simp_all add: delta_def)
    with fin show ?thesis by simp
  qed
qed


lemma Subscription_save_keeps:
  "Subscription_save P f s = (r, s') \<Longrightarrow> users s' = users s \<and> creditLogs s' = creditLogs s"
  by (auto simp: Subscription_save_def split: option.splits if_splits)

lemma Subscription_upsert_keeps:
  "Subscription_upsert v sid doc s = (r, s') \<Longrightarrow> users s' = users s \<and> creditLogs s' = creditLogs s"
  by (auto simp: Subscription_upsert_def Let_def split: option.splits)

lemma Transaction_create_snd:
  "users (snd (Transaction_create d s)) = users s"
  "creditLogs (snd (Transaction_create d s)) = creditLogs s"
  by (simp_all add: Transaction_create_def)

lemma Subscription_save_snd:
  "users (snd (Subscription_save P f s)) = users s"
  "creditLogs (snd (Subscription_save P f s)) = creditLogs s"
  by (simp_all add: Subscription_save_def split: option.splits)

lemma updated_keeps:
  "users (snd (handleSubscriptionUpdated e st s)) = users s
   \<and> creditLogs (snd (handleSubscriptionUpdated e st s)) = creditLogs s"
  by (simp add: handleSubscriptionUpdated_def Let_def Subscription_save_snd
      split: option.splits prod.splits)

lemma deleted_keeps:
  "users (snd (handleSubscriptionDeleted st s)) = users s
   \<and> creditLogs (snd (handleSubscriptionDeleted st s)) = creditLogs s"
  by (auto simp: handleSubscriptionDeleted_def Let_def privatize_resumes_def
      split: option.splits prod.splits sum.splits
      dest!: Subscription_save_keeps)

lemma failed_keeps:
  "users (snd (handlePaymentFailed iv s)) = users s
   \<and> creditLogs (snd (handlePaymentFailed iv s)) = creditLogs s"
  by (auto simp: handlePaymentFailed_def Let_def Transaction_create_snd
      split: option.splits prod.splits sum.splits
      dest!: Subscription_save_keeps)

lemma createSubscriptionCheckout_keeps:
  "users (snd (createSubscriptionCheckoutSession e v p s)) = users s
   \<and> creditLogs (snd (createSubscriptionCheckoutSession e v p s)) = creditLogs s"
  by (auto simp: createSubscriptionCheckoutSession_def Let_def
      split: option.splits prod.splits sum.splits list.splits
      dest!: Subscription_upsert_keeps)

lemma cancel_keeps:
  "users (snd (cancelSubscription e v s)) = users s
   \<and> creditLogs (snd (cancelSubscription e v s)) = creditLogs s"
  by (auto simp: cancelSubscription_def
      split: option.splits prod.splits sum.splits
      dest!: Subscription_save_keeps)

lemma reactivate_keeps:
  "users (snd (reactivateSubscription e v s)) = users s
   \<and> creditLogs (snd (reactivateSubscription e v s)) = creditLogs s"
  by (auto simp: reactivateSubscription_def Let_def
      split: option.splits prod.splits sum.splits
      dest!: Subscription_save_keeps)

lemma switchPlan_keeps:
  "users (snd (switchPlan e v p s)) = users s
   \<and> creditLogs (snd (switchPlan e v p s)) = creditLogs s"
  by (auto simp: switchPlan_def Let_def
      split: option.splits prod.splits sum.splits list.splits
      dest!: Subscription_save_keeps)

lemma syncSubscription_keeps:
  "users (snd (syncSubscriptionFromStripe e v s)) = users s
   \<and> creditLogs (snd (syncSubscriptionFromStripe e v s)) = creditLogs s"
  by (auto simp: syncSubscriptionFromStripe_def Let_def
      split: option.splits prod.splits sum.splits list.splits
      dest!: Subscription_upsert_keeps)

lemma sync_charges_keeps:
  "users (snd (sync_charges e v cs n s)) = users s
   \<and> creditLogs (snd (sync_charges e v cs n s)) = creditLogs s"
proof (induction cs arbitrary: n s)
  case Nil
  then show ?case by simp
next
  case (Cons c cs)
  show ?case
    by (auto simp: Cons.IH split: option.splits sum.splits prod.splits dest!: Transaction_create_keeps)
qed

lemma sync_intents_keeps:
  "users (snd (sync_intents e v ps n s)) = users s
   \<and> creditLogs (snd (sync_intents e v ps n s)) = creditLogs s"
proof (induction ps arbitrary: n s)
  case Nil
  then show ?case by simp
next
  case (Cons p ps)
  show ?case
    by (auto simp: Cons.IH split: option.splits sum.splits prod.splits dest!: Transaction_create_keeps)
qed


lemma syncTransactions_keeps:
  "users (snd (syncTransactionsFromStripe e v s)) = users s
   \<and> creditLogs (snd (syncTransactionsFromStripe e v s)) = creditLogs s"
proof -
  have a: "users (snd (sync_intents e v ps n (snd (sync_charges e v cs m s)))) = users s"
    "creditLogs (snd (sync_intents e v ps n (snd (sync_charges e v cs m s)))) = creditLogs s"
    for ps n cs m
    by (simp_all add: sync_intents_keeps sync_charges_keeps)
  show ?thesis
  proof (cases "User_findById s v")
    case None
    then show ?thesis by (simp add: syncTransactionsFromStripe_def)
  next
    case (Some usr)
    show ?thesis
    proof (cases "resolveCustomer e v usr s")
      case (Inl x)
      with Some show ?thesis by (simp add: syncTransactionsFromStripe_def)
    next
      case (Inr c)
      show ?thesis
      proof (cases c)
        case None
        with Some Inr show ?thesis by (simp add: syncTransactionsFromStripe_def)
      next
        case cu: (Some customerId)
        show ?thesis
        proof (cases "charges_list e customerId")
          case (Inl x)
          with Some Inr cu show ?thesis by (simp add: syncTransactionsFromStripe_def)
        next
          case cl: (Inr cs)
          show ?thesis
          proof (cases "paymentIntents_list e customerId")
            case (Inl x)
            with Some Inr cu cl show ?thesis by (simp add: syncTransactionsFromStripe_def)
          next
            case pl: (Inr ps)
            obtain r1 s1 where c1: "sync_charges e v cs 0 s = (r1, s1)"
              by (cases "sync_charges e v cs 0 s")
            have k1: "users s1 = users s" "creditLogs s1 = creditLogs s"
              using sync_charges_keeps [of e v cs 0 s] c1 by simp_all
            show ?thesis
            proof (cases r1)
              case (Inl x)
              with Some Inr cu cl pl c1 k1 show ?thesis
                by (simp add: syncTransactionsFromStripe_def)
            next
              case im: (Inr imported)
              obtain r2 s2 where c2: "sync_intents e v ps imported s1 = (r2, s2)"
                by (cases "sync_intents e v ps imported s1")
              have k2: "users s2 = users s" "creditLogs s2 = creditLogs s"
                using sync_intents_keeps [of e v ps imported s1] c2 k1 by simp_all
              from Some Inr cu cl pl c1 im c2 k2 show ?thesis
                by (cases r2) (simp_all add: syncTransactionsFromStripe_def)
            qed
          qed
        qed
      qed
    qed
  qed
qed

lemma checkout_ledger:
  assumes inv: "ledger_consistent s u"
    and nve: "fst (handleCheckoutCompleted e ses s) \<noteq> Inl (ValidationError ''credits'')"
      "fst (handleCheckoutCompleted e ses s) \<noteq> Inl (ValidationError ''description'')"
  shows "ledger_consistent (snd (handleCheckoutCompleted e ses s)) u"
proof (cases "ses_type ses = ''credit_purchase''")
  case True
  let ?n = "ses_creditAmount ses"
  obtain upd s1 where inc: "User_inc_credits (ses_userId ses) ?n s = (upd, s1)"
    by (cases "User_inc_credits (ses_userId ses) ?n s")
  let ?tx = "\<lparr>tx_userId = ses_userId ses, tx_stripeSessionId = Some (ses_id ses),
               tx_stripePaymentIntentId = ses_payment_intent ses,
               tx_stripeSubscriptionId = None, tx_stripeInvoiceId = None,
               tx_type = ''credit_purchase'', tx_status = ''completed'',
               tx_amount = (case ses_amount_total ses of Some a \<Rightarrow> a | None \<Rightarrow> 0),
               tx_currency = or_else (ses_currency ses) ''usd'', tx_creditsAdded = ?n,
               tx_plan = None, tx_stripeEventType = ''checkout.session.completed'',
               tx_metaChargeId = None, tx_metaPaymentIntentId = None\<rparr>"
  have tx: "Transaction_create ?tx s1 = (Inr (), s1\<lparr>transactions := transactions s1 @ [?tx]\<rparr>)"
    by (rule Transaction_create_ok) (simp_all add: transaction_types_def transaction_statuses_def)
  let ?s2 = "s1\<lparr>transactions := transactions s1 @ [?tx]\<rparr>"
  let ?entry = "\<lparr>cl_userId = ses_userId ses, cl_type = ''purchase'', cl_action = None,
                  cl_credits = ?n, cl_balanceAfter = map_option credits upd,
                  cl_description = ''Purchased credits''\<rparr>"
  obtain r s3 where log: "CreditLog_create ?entry ?s2 = (r, s3)"
    by (cases "CreditLog_create ?entry ?s2")
  have run: "handleCheckoutCompleted e ses s = (r, s3)"
    using True inc tx log by (simp add: handleCheckoutCompleted_def Let_def)
  have ty: "cl_type ?entry \<in> set creditLog_types" by (simp add: creditLog_types_def)
  from CreditLog_create_cases [OF log ty] show ?thesis
  proof
    assume "(r = Inl (ValidationError ''credits'') \<or> r = Inl (ValidationError ''description'')) \<and> s3 = ?s2"
    with run nve show ?thesis by auto
  next
    assume ok: "r = Inr () \<and> s3 = ?s2\<lparr>creditLogs := creditLogs ?s2 @ [?entry]\<rparr>"
    with log have log': "CreditLog_create ?entry ?s2 = (Inr (), s3)" by simp
    have "ledger_consistent s3 u"
      by (rule credit_then_log [OF inv inc _ _ log' refl refl]) (simp_all add: delta_def)
    with run show ?thesis by simp
  qed
next
  case False
  note np = False
  show ?thesis
  proof (cases "ses_type ses = ''subscription''")
    case False
    with np inv show ?thesis by (simp add: handleCheckoutCompleted_def Let_def)
  next
    case True
    show ?thesis
    proof (cases "subscriptions_retrieve e (Some (ses_subscription ses))")
      case (Inl x)
      with True np inv show ?thesis by (simp add: handleCheckoutCompleted_def Let_def)
    next
      case (Inr stripeSub)
      obtain a b where pd: "extractPeriodDates e stripeSub = (a, b)"
        by (cases "extractPeriodDates e stripeSub")
      let ?doc = "\<lparr>sub_userId = ses_userId ses, stripeCustomerId = Some (ses_customer ses),
                  stripeSubscriptionId = Some (ses_subscription ses), sub_plan = ses_plan ses,
                  sub_status = ss_status stripeSub, currentPeriodStart = Some a,
                  currentPeriodEnd = Some b,
                  cancelAtPeriodEnd = ss_cancel_at_period_end stripeSub,
                  sub_features = all_features\<rparr>"
      obtain r0 s1 where up: "Subscription_upsert (ses_userId ses) (ses_subscription ses) ?doc s = (r0, s1)"
        by (cases "Subscription_upsert (ses_userId ses) (ses_subscription ses) ?doc s")
      from Subscription_upsert_keeps [OF up] inv have inv1: "ledger_consistent s1 u"
        by (simp add: ledger_keeps)
      show ?thesis
      proof (cases r0)
        case (Inl x)
        with True np Inr pd up inv1 show ?thesis
          by (simp add: handleCheckoutCompleted_def Let_def)
      next
        case ok0: (Inr d)
        let ?n = "creditLimitForPlan s1 (ses_plan ses)"
        obtain upd s2 where inc: "User_inc_credits (ses_userId ses) ?n s1 = (upd, s2)"
          by (cases "User_inc_credits (ses_userId ses) ?n s1")
        let ?entry = "\<lparr>cl_userId = ses_userId ses, cl_type = ''addition'', cl_action = None,
                        cl_credits = ?n, cl_balanceAfter = map_option credits upd,
                        cl_description = ''Subscription activated - credits added''\<rparr>"
        obtain r s3 where log: "CreditLog_create ?entry s2 = (r, s3)"
          by (cases "CreditLog_create ?entry s2")
        let ?tx = "\<lparr>tx_userId = ses_userId ses, tx_stripeSessionId = Some (ses_id ses),
                     tx_stripePaymentIntentId = ses_payment_intent ses,
                     tx_stripeSubscriptionId = Some (ses_subscription ses),
                     tx_stripeInvoiceId = None,
                     tx_type = ''subscription_payment'', tx_status = ''completed'',
                     tx_amount = (case ses_amount_total ses of Some a \<Rightarrow> a | None \<Rightarrow> 0),
                     tx_currency = or_else (ses_currency ses) ''usd'',
                     tx_creditsAdded = ?n, tx_plan = Some (ses_plan ses),
                     tx_stripeEventType = ''checkout.session.completed'',
                     tx_metaChargeId = None, tx_metaPaymentIntentId = None\<rparr>"
        have run: "handleCheckoutCompleted e ses s
                     = (case r of Inl err \<Rightarrow> (Inl err, s3) | Inr x \<Rightarrow> Transaction_create ?tx s3)"
          using True np Inr pd up ok0 inc log
          by (simp add: handleCheckoutCompleted_def Let_def split: sum.splits)
        have ty: "cl_type ?entry \<in> set creditLog_types" by (simp add: creditLog_types_def)
        from CreditLog_create_cases [OF log ty] show ?thesis
        proof
          assume "(r = Inl (ValidationError ''credits'') \<or> r = Inl (ValidationError ''description'')) \<and> s3 = s2"
          with run nve show ?thesis by auto
        next
          assume ok: "r = Inr () \<and> s3 = s2\<lparr>creditLogs := creditLogs s2 @ [?entry]\<rparr>"
          obtain r4 s4 where tx: "Transaction_create ?tx s3 = (r4, s4)"
            by (cases "Transaction_create ?tx s3")
          from ok run tx have fin: "snd (handleCheckoutCompleted e ses s) = s4" by simp
          from ok log have log': "CreditLog_create ?entry s2 = (Inr (), s3)" by simp
          from Transaction_create_keeps [OF tx] have k: "users s4 = users s3" "creditLogs s4 = creditLogs s3"
            by simp_all
          have "ledger_consistent s4 u"
            by (rule credit_then_log [OF inv1 inc refl refl log' k]) (simp_all add: delta_def)
          with fin show ?thesis by simp
        qed
      qed
    qed
  qed
qed


lemma checkCredits_unlimited:
  assumes "checkCredits castString s v action = Inr cc"
  shows "\<exists>usr. User_findById s v = Some usr \<and> (unlimited cc \<longleftrightarrow> role usr = ''admin'')"
  using assms
  by (auto simp: checkCredits_def Let_def split: option.splits if_splits property.splits)

lemma deduct_ledger:
  assumes inv: "ledger_consistent s u"
    and nve: "fst (deductCredits castString v action s) \<noteq> Inl (ValidationError ''credits'')"
      "fst (deductCredits castString v action s) \<noteq> Inl (ValidationError ''description'')"
  shows "ledger_consistent (snd (deductCredits castString v action s)) u"
proof (cases "checkCredits castString s v action")
  case (Inl x)
  with inv show ?thesis by (simp add: deductCredits_def)
next
  case (Inr cc)
  then have run: "deductCredits castString v action s = deductCredits_commit castString cc v action s"
    by (simp add: deductCredits_def)
  from checkCredits_unlimited [OF Inr] obtain usr
    where usr: "User_findById s v = Some usr" and un: "unlimited cc \<longleftrightarrow> role usr = ''admin''"
    by blast
  show ?thesis
  proof (cases "unlimited cc")
    case True
    with un usr inv have vu: "v \<noteq> u"
      by (auto simp: ledger_consistent_def)
    show ?thesis
    proof (cases "label_of castString action")
      case None
      with True run inv show ?thesis by (simp add: deductCredits_commit_def)
    next
      case (Some label)
      let ?entry = "\<lparr>cl_userId = v, cl_type = ''usage'', cl_action = Some action,
                      cl_credits = 0, cl_balanceAfter = None, cl_description = label\<rparr>"
      obtain r s1 where log: "CreditLog_create ?entry s = (r, s1)"
        by (cases "CreditLog_create ?entry s")
      have fin: "snd (deductCredits castString v action s) = s1"
        using True run Some log by (cases r) (simp_all add: deductCredits_commit_def)
      have ty: "cl_type ?entry \<in> set creditLog_types" by (simp add: creditLog_types_def)
      from CreditLog_create_cases [OF log ty] have "ledger_consistent s1 u"
      proof
        assume "(r = Inl (ValidationError ''credits'') \<or> r = Inl (ValidationError ''description'')) \<and> s1 = s"
        with inv show ?thesis by simp
      next
        assume "r = Inr () \<and> s1 = s\<lparr>creditLogs := creditLogs s @ [?entry]\<rparr>"
        then have "users s1 = users s" "creditLogs s1 = creditLogs s @ [?entry]" by simp_all
        from ledger_foreign_entry [OF inv this] vu show ?thesis by simp
      qed
      with fin show ?thesis by simp
    qed
  next
    case False
    note nu = False
    show ?thesis
    proof (cases "hasCredits cc")
      case False
      with nu run inv show ?thesis by (simp add: deductCredits_commit_def)
    next
      case True
      obtain upd s1 where inc: "User_inc_credits v (- required cc) s = (upd, s1)"
        by (cases "User_inc_credits v (- required cc) s")
      from inc usr obtain updatedUser where upd: "upd = Some updatedUser"
        by (auto simp: User_inc_credits_def Let_def)
      show ?thesis
      proof (cases "label_of castString action")
        case None
        with nu True run inc upd have "fst (deductCredits castString v action s) = Inl (ValidationError ''description'')"
          by (simp add: deductCredits_commit_def Let_def)
        with nve show ?thesis by simp
      next
        case (Some label)
        let ?entry = "\<lparr>cl_userId = v, cl_type = ''usage'', cl_action = Some action,
                        cl_credits = required cc, cl_balanceAfter = Some (credits updatedUser),
                        cl_description = label\<rparr>"
        obtain r s2 where log: "CreditLog_create ?entry s1 = (r, s2)"
          by (cases "CreditLog_create ?entry s1")
        have res: "fst (deductCredits castString v action s) = (case r of Inl err \<Rightarrow> Inl err | Inr x \<Rightarrow> fst (deductCredits castString v action s))"
          "snd (deductCredits castString v action s) = s2"
          using nu True run inc upd Some log
          by (cases r; simp add: deductCredits_commit_def Let_def)+
        have ty: "cl_type ?entry \<in> set creditLog_types" by (simp add: creditLog_types_def)
        from CreditLog_create_cases [OF log ty] have "ledger_consistent s2 u"
        proof
          assume bad: "(r = Inl (ValidationError ''credits'') \<or> r = Inl (ValidationError ''description'')) \<and> s2 = s1"
          with res(1) have "fst (deductCredits castString v action s) = Inl (ValidationError ''credits'')
              \<or> fst (deductCredits castString v action s) = Inl (ValidationError ''description'')"
            by auto
          with nve show ?thesis by blast
        next
          assume ok: "r = Inr () \<and> s2 = s1\<lparr>creditLogs := creditLogs s1 @ [?entry]\<rparr>"
          with log have log': "CreditLog_create ?entry s1 = (Inr (), s2)" by simp
          show ?thesis
            by (rule credit_then_log [OF inv inc refl refl log' refl refl])
              (simp_all add: delta_def upd)
        qed
        with res(2) show ?thesis by simp
      qed
    qed
  qed
qed

lemma register_ledger:
  assumes inv: "ledger_consistent s u"
  shows "ledger_consistent (snd (register w em ro s)) u"
proof (cases "find (\<lambda>(i, usr). email usr = em) (users s) \<noteq> None \<or> User_findById s w \<noteq> None")
  case True
  with inv show ?thesis by (auto simp: register_def)
next
  case False
  from inv obtain usr where usr: "User_findById s u = Some usr"
    by (cases "User_findById s u") (simp_all add: ledger_consistent_def)
  with False have wu: "w \<noteq> u" by auto
  let ?n = "getInitialCredits s"
  let ?s1 = "s\<lparr>users := users s @ [(w, \<lparr>email = em, role = ro, credits = ?n\<rparr>)]\<rparr>"
  have f1: "User_findById ?s1 u = User_findById s u"
    using usr by (simp add: User_findById_def map_add_def)
  have inv1: "ledger_consistent ?s1 u"
    by (rule ledger_same [OF inv f1]) (simp add: ledger_of_def)
  show ?thesis
  proof (cases "0 < ?n")
    case False
    with \<open>\<not> (find (\<lambda>(i, usr). email usr = em) (users s) \<noteq> None \<or> User_findById s w \<noteq> None)\<close> inv1
    show ?thesis by (simp add: register_def Let_def)
  next
    case True
    let ?entry = "\<lparr>cl_userId = w, cl_type = ''initial'', cl_action = None,
                    cl_credits = ?n, cl_balanceAfter = Some ?n,
                    cl_description = ''Welcome bonus - free credits''\<rparr>"
    have log: "CreditLog_create ?entry ?s1 = (Inr (), ?s1\<lparr>creditLogs := creditLogs ?s1 @ [?entry]\<rparr>)"
      using True by (intro CreditLog_create_ok) (simp_all add: creditLog_types_def)
    have fin: "snd (register w em ro s) = ?s1\<lparr>creditLogs := creditLogs ?s1 @ [?entry]\<rparr>"
      using True \<open>\<not> (find (\<lambda>(i, usr). email usr = em) (users s) \<noteq> None \<or> User_findById s w \<noteq> None)\<close> log
      by (simp add: register_def Let_def logCreditEvent_def)
    have "ledger_consistent (?s1\<lparr>creditLogs := creditLogs ?s1 @ [?entry]\<rparr>) u"
      by (rule ledger_foreign_entry [OF inv1, where entry = ?entry]) (simp_all add: wu)
    with fin show ?thesis by simp
  qed
qed


lemma outcome_fst_snd:
  "snd (outcome x) = snd x"
  "\<not> ledger_refused (fst (outcome x)) \<Longrightarrow>
     fst x \<noteq> Inl (ValidationError ''credits'') \<and> fst x \<noteq> Inl (ValidationError ''description'')"
  by (cases x; cases "fst x"; auto simp: outcome_def ledger_refused_def)+

lemma perform_ledger:
  assumes inv: "ledger_consistent s u"
    and acc: "\<not> ledger_refused (fst (perform castString e r s))"
  shows "ledger_consistent (snd (perform castString e r s)) u"
proof (cases r)
  case (Register w em ro)
  with register_ledger [OF inv] show ?thesis by (simp add: perform_def outcome_fst_snd)
next
  case (DeductCredits v action)
  with acc have "\<not> ledger_refused (fst (outcome (deductCredits castString v action s)))"
    by (simp add: perform_def)
  from outcome_fst_snd(2) [OF this] deduct_ledger [OF inv] DeductCredits show ?thesis
    by (simp add: perform_def outcome_fst_snd)
next
  case (Webhook ev)
  show ?thesis
  proof (cases ev)
    case (CheckoutSessionCompleted ses)
    with acc Webhook have "\<not> ledger_refused (fst (outcome (handleCheckoutCompleted e ses s)))"
      by (simp add: perform_def handleWebhookEvent_def)
    from outcome_fst_snd(2) [OF this] checkout_ledger [OF inv] Webhook CheckoutSessionCompleted
    show ?thesis by (simp add: perform_def handleWebhookEvent_def outcome_fst_snd)
  next
    case (CustomerSubscriptionUpdated st)
    with Webhook ledger_keeps [OF inv] updated_keeps [of e st s] show ?thesis
      by (simp add: perform_def handleWebhookEvent_def outcome_fst_snd)
  next
    case (CustomerSubscriptionDeleted st)
    with Webhook ledger_keeps [OF inv] deleted_keeps [of st s] show ?thesis
      by (simp add: perform_def handleWebhookEvent_def outcome_fst_snd)
  next
    case (InvoicePaymentSucceeded iv)
    with acc Webhook have "\<not> ledger_refused (fst (outcome (handleInvoicePaymentSucceeded iv s)))"
      by (simp add: perform_def handleWebhookEvent_def)
    from outcome_fst_snd(2) [OF this] invoice_ledger [OF inv] Webhook InvoicePaymentSucceeded
    show ?thesis by (simp add: perform_def handleWebhookEvent_def outcome_fst_snd)
  next
    case (InvoicePaymentFailed iv)
    with Webhook ledger_keeps [OF inv] failed_keeps [of iv s] show ?thesis
      by (simp add: perform_def handleWebhookEvent_def outcome_fst_snd)
  next
    case (OtherEvent x)
    with Webhook inv show ?thesis
      by (simp add: perform_def handleWebhookEvent_def outcome_fst_snd)
  qed
next
  case (CreateCreditCheckout v n)
  with inv show ?thesis by (simp add: perform_def outcome_fst_snd createCreditCheckout_state)
next
  case (CreateSubscriptionCheckout v p)
  with ledger_keeps [OF inv] createSubscriptionCheckout_keeps [of e v p s] show ?thesis
    by (simp add: perform_def outcome_fst_snd)
next
  case (CancelSubscription v)
  with ledger_keeps [OF inv] cancel_keeps [of e v s] show ?thesis
    by (simp add: perform_def outcome_fst_snd)
next
  case (ReactivateSubscription v)
  with ledger_keeps [OF inv] reactivate_keeps [of e v s] show ?thesis
    by (simp add: perform_def outcome_fst_snd)
next
  case (SwitchPlan v p)
  with ledger_keeps [OF inv] switchPlan_keeps [of e v p s] show ?thesis
    by (simp add: perform_def outcome_fst_snd)
next
  case (BillingPortal v)
  with inv show ?thesis by (simp add: perform_def outcome_fst_snd billingPortal_state)
next
  case (VerifySession sid v)
  show ?thesis
  proof (cases "\<exists>ses. sessions_retrieve e sid = Inr (Some ses)
                  \<and> find (\<lambda>t. tx_stripeSessionId t = Some sid \<and> tx_status t = ''completed'') (transactions s) = None
                  \<and> ses_payment_status ses = ''paid'' \<and> ses_userId ses = v")
    case False
    then have "snd (verifyAndProcessSession e sid v s) = s"
      by (auto simp: verifyAndProcessSession_def split: option.splits sum.splits)
    with VerifySession inv show ?thesis by (simp add: perform_def outcome_fst_snd)
  next
    case True
    then obtain ses where ses: "sessions_retrieve e sid = Inr (Some ses)"
      "find (\<lambda>t. tx_stripeSessionId t = Some sid \<and> tx_status t = ''completed'') (transactions s) = None"
      "ses_payment_status ses = ''paid''" "ses_userId ses = v"
      by blast
    obtain r1 s1 where h: "handleCheckoutCompleted e ses s = (r1, s1)"
      by (cases "handleCheckoutCompleted e ses s")
    have v: "snd (verifyAndProcessSession e sid v s) = s1"
      "fst (verifyAndProcessSession e sid v s) = (case r1 of Inl err \<Rightarrow> Inl err
          | Inr x \<Rightarrow> Inr (False, find (\<lambda>t. tx_stripeSessionId t = Some sid) (transactions s1)))"
      using ses h by (cases r1; simp add: verifyAndProcessSession_def)+
    from acc VerifySession have "\<not> ledger_refused (fst (outcome (verifyAndProcessSession e sid v s)))"
      by (simp add: perform_def)
    from outcome_fst_snd(2) [OF this] v(2) h
    have "fst (handleCheckoutCompleted e ses s) \<noteq> Inl (ValidationError ''credits'')"
      "fst (handleCheckoutCompleted e ses s) \<noteq> Inl (ValidationError ''description'')"
      by (cases r1; auto)+
    from checkout_ledger [OF inv this] h v(1) VerifySession show ?thesis
      by (simp add: perform_def outcome_fst_snd)
  qed
next
  case (SyncSubscription v)
  with ledger_keeps [OF inv] syncSubscription_keeps [of e v s] show ?thesis
    by (simp add: perform_def outcome_fst_snd)
next
  case (SyncTransactions v)
  with ledger_keeps [OF inv] syncTransactions_keeps [of e v s] show ?thesis
    by (simp add: perform_def outcome_fst_snd)
qed

lemma run_ledger:
  "ledger_consistent s u \<Longrightarrow> ledger_accepted castString steps s
     \<Longrightarrow> ledger_consistent (run castString steps s) u"
proof (induction steps arbitrary: s)
  case Nil
  then show ?case by simp
next
  case (Cons step steps)
  obtain e r where step: "step = (e, r)" by (cases step)
  from Cons.prems(2) step
  have a: "\<not> ledger_refused (fst (perform castString e r s))"
    and b: "ledger_accepted castString steps (snd (perform castString e r s))"
    by simp_all
  from Cons.IH [OF perform_ledger [OF Cons.prems(1) a] b] step show ?case by simp
qed

lemma register_establishes:
  assumes reg: "register u em ro s = (Inr (), s1)"
    and ro: "ro \<noteq> ''admin''" and init: "0 \<le> getInitialCredits s" and fresh: "ledger_of s u = []"
  shows "ledger_consistent s1 u"
proof -
  have ok1: "find (\<lambda>(i, usr). email usr = em) (users s) = None"
  proof (rule ccontr)
    assume "find (\<lambda>(i, usr). email usr = em) (users s) \<noteq> None"
    with reg show False by (simp add: register_def)
  qed
  have ok2: "User_findById s u = None"
  proof (rule ccontr)
    assume "User_findById s u \<noteq> None"
    with reg ok1 show False by (simp add: register_def)
  qed
  note ok = ok1 ok2
  let ?n = "getInitialCredits s"
  let ?s1 = "s\<lparr>users := users s @ [(u, \<lparr>email = em, role = ro, credits = ?n\<rparr>)]\<rparr>"
  have f1: "User_findById ?s1 u = Some \<lparr>email = em, role = ro, credits = ?n\<rparr>"
    using ok(2) by (simp add: User_findById_def map_add_def)
  show ?thesis
  proof (cases "0 < ?n")
    case False
    with init have z: "?n = 0" by simp
    from reg ok False have "s1 = ?s1" by (simp add: register_def Let_def)
    with f1 fresh ro z show ?thesis
      by (simp add: ledger_consistent_def ledger_of_def running_sum_Nil)
  next
    case True
    let ?entry = "\<lparr>cl_userId = u, cl_type = ''initial'', cl_action = None,
                    cl_credits = ?n, cl_balanceAfter = Some ?n,
                    cl_description = ''Welcome bonus - free credits''\<rparr>"
    have log: "CreditLog_create ?entry ?s1 = (Inr (), ?s1\<lparr>creditLogs := creditLogs ?s1 @ [?entry]\<rparr>)"
      using True by (intro CreditLog_create_ok) (simp_all add: creditLog_types_def)
    from reg ok True log have s1: "s1 = ?s1\<lparr>creditLogs := creditLogs ?s1 @ [?entry]\<rparr>"
      by (simp add: register_def Let_def logCreditEvent_def)
    have f: "User_findById s1 u = Some \<lparr>email = em, role = ro, credits = ?n\<rparr>"
      using f1 s1 by (simp add: User_findById_def)
    have l: "ledger_of s1 u = [?entry]"
      using fresh s1 by (simp add: ledger_of_def)
    show ?thesis
      using ro by (simp add: ledger_consistent_def f l running_sum_def delta_def)
  qed
qed


lemma snapshots_ok_prefix:
  "snapshots_ok acc es \<longleftrightarrow>
     (\<forall>i < length es. cl_balanceAfter (es ! i) = Some (acc + running_sum (take (Suc i) es)))"
proof (induction es arbitrary: acc)
  case Nil
  show ?case by simp
next
  case (Cons a es)
  have "(\<forall>i < length (a # es). cl_balanceAfter ((a # es) ! i) = Some (acc + running_sum (take (Suc i) (a # es))))
        \<longleftrightarrow> (cl_balanceAfter a = Some (acc + delta a)
             \<and> (\<forall>i < length es. cl_balanceAfter (es ! i) = Some (acc + delta a + running_sum (take (Suc i) es))))"
    by (simp add: All_less_Suc2 running_sum_def add.assoc)
  then show ?case by (simp only: snapshots_ok.simps Cons.IH)
qed

text \<open>
  C1, as stated, fails, in three ways. An administrator's debit writes a usage entry
  whose snapshot is \<^verbatim>\<open>null\<close>: after the registration and one debit of the
  administrator the snapshots of the ledger are 10 and \<^verbatim>\<open>null\<close>. A checkout session
  for -5 credits moves the balance of \<^verbatim>\<open>u1\<close> from 10 to 5, and the credit log then
  refuses the entry with the negative magnitude: the ledger still sums to 10. And with
  the setting \<^verbatim>\<open>initial_credits\<close> at -4 the registration stores the balance -4 and
  writes no entry.
\<close>

theorem ledger_balance_counterexample:
  "map cl_balanceAfter
     (ledger_of (run no_cast [(stripe_down, Register ''adm'' ''root@example.org'' ''admin''),
                              (stripe_down, DeductCredits ''adm'' ''resume_creation'')] s_fresh) ''adm'')
     = [Some 10, None]
   \<and> perform no_cast stripe_down (Webhook (CheckoutSessionCompleted sess_negative))
        (run no_cast [(stripe_down, Register ''u1'' ''u1@example.org'' ''user'')] s_fresh)
       = (Some (ValidationError ''credits''),
          run no_cast [(stripe_down, Register ''u1'' ''u1@example.org'' ''user''),
                       (stripe_down, Webhook (CheckoutSessionCompleted sess_negative))] s_fresh)
   \<and> map_option credits
        (User_findById (run no_cast [(stripe_down, Register ''u1'' ''u1@example.org'' ''user''),
                                     (stripe_down, Webhook (CheckoutSessionCompleted sess_negative))] s_fresh) ''u1'')
       = Some 5
   \<and> running_sum
        (ledger_of (run no_cast [(stripe_down, Register ''u1'' ''u1@example.org'' ''user''),
                                 (stripe_down, Webhook (CheckoutSessionCompleted sess_negative))] s_fresh) ''u1'')
       = 10
   \<and> map_option credits
        (User_findById (run no_cast [(stripe_down, Register ''u1'' ''u1@example.org'' ''user'')]
                          (s_fresh\<lparr>numSettings := [(''initial_credits'', - 4)]\<rparr>)) ''u1'')
       = Some (- 4)
   \<and> ledger_of (run no_cast [(stripe_down, Register ''u1'' ''u1@example.org'' ''user'')]
                   (s_fresh\<lparr>numSettings := [(''initial_credits'', - 4)]\<rparr>)) ''u1'' = []"
  by code_simp

text \<open>
  C1, amended. For every user who is not an administrator, registered with an initial
  grant that is not negative (under the id of the new user document, which no ledger
  entry names yet), and for every sequence of requests after the registration (debits,
  webhook deliveries with their purchase and subscription credits, registrations of
  other users, and the client operations of the payment service) in which the credit
  log's schema refuses no entry: the balance stored on the user record is the signed sum
  of the user's ledger entries, usage counted negative and every other kind positive,
  and each entry's balance snapshot is the signed sum of the entries up to and including
  it.
\<close>

theorem balance_is_ledger_sum:
  assumes reg: "perform castString e (Register u email' role') s = (None, s1)"
    and ro: "role' \<noteq> ''admin''"
    and init: "0 \<le> getInitialCredits s"
    and fresh: "ledger_of s u = []"
    and acc: "ledger_accepted castString steps s1"
  shows "\<exists>usr. User_findById (run castString steps s1) u = Some usr
           \<and> credits usr = running_sum (ledger_of (run castString steps s1) u)
           \<and> (\<forall>i < length (ledger_of (run castString steps s1) u).
                 cl_balanceAfter (ledger_of (run castString steps s1) u ! i)
                   = Some (running_sum (take (Suc i) (ledger_of (run castString steps s1) u))))"
proof -
  from reg have "register u email' role' s = (Inr (), s1)"
    by (cases "register u email' role' s"; cases "fst (register u email' role' s)")
      (auto simp: perform_def outcome_def)
  from register_establishes [OF this ro init fresh] have "ledger_consistent s1 u" .
  from run_ledger [OF this acc] have "ledger_consistent (run castString steps s1) u" .
  then show ?thesis
    using snapshots_ok_prefix [of 0 "ledger_of (run castString steps s1) u"]
    by (cases "User_findById (run castString steps s1) u") (simp_all add: ledger_consistent_def)
qed

text \<open>
  The theorem at \<^verbatim>\<open>u1\<close>, registered in the empty database: after a debit, a purchase of
  10 credits and the monthly subscription's 50 credits the balance is 69, the sum of the
  four entries of the ledger.
\<close>

theorem balance_is_ledger_sum_witness:
  "perform no_cast stripe_down (Register ''u1'' ''u1@example.org'' ''user'') s_fresh = (None, s_registered)
   \<and> getInitialCredits s_fresh = 10
   \<and> ledger_of s_fresh ''u1'' = []
   \<and> ledger_accepted no_cast ledger_steps s_registered
   \<and> map (\<lambda>entry. (cl_type entry, cl_credits entry, cl_balanceAfter entry))
        (ledger_of (run no_cast ledger_steps s_registered) ''u1'')
       = [(''initial'', 10, Some 10), (''usage'', 1, Some 9), (''purchase'', 10, Some 19),
          (''addition'', 50, Some 69)]
   \<and> running_sum (ledger_of (run no_cast ledger_steps s_registered) ''u1'') = 69
   \<and> (\<exists>usr. User_findById (run no_cast ledger_steps s_registered) ''u1'' = Some usr
           \<and> credits usr = running_sum (ledger_of (run no_cast ledger_steps s_registered) ''u1''))"
proof -
  have a: "perform no_cast stripe_down (Register ''u1'' ''u1@example.org'' ''user'') s_fresh
             = (None, s_registered)" by code_simp
  have b: "''user'' \<noteq> ''admin''" by simp
  have c: "getInitialCredits s_fresh = 10" by code_simp
  have d: "ledger_of s_fresh ''u1'' = []" by code_simp
  have e: "ledger_accepted no_cast ledger_steps s_registered" by code_simp
  have f: "map (\<lambda>entry. (cl_type entry, cl_credits entry, cl_balanceAfter entry))
             (ledger_of (run no_cast ledger_steps s_registered) ''u1'')
           = [(''initial'', 10, Some 10), (''usage'', 1, Some 9), (''purchase'', 10, Some 19),
              (''addition'', 50, Some 69)]" by code_simp
  have g: "running_sum (ledger_of (run no_cast ledger_steps s_registered) ''u1'') = 69" by code_simp
  from c have c': "0 \<le> getInitialCredits s_fresh" by simp
  from balance_is_ledger_sum [OF a b c' d e]
  have "\<exists>usr. User_findById (run no_cast ledger_steps s_registered) ''u1'' = Some usr
           \<and> credits usr = running_sum (ledger_of (run no_cast ledger_steps s_registered) ''u1'')"
    by blast
  with a c d e f g show ?thesis by (simp only: simp_thms)
qed

end
